theory Spec2Isabelle
  imports
    Main
    "HOL-Library.Word"
    "HOL-Library.Char_ord"
    "HOL-Library.List_Lexorder"
    "HOL-Library.Sublist"
begin

unbundle bit_operations_syntax

section \<open>JavaScript strings\<close>

text \<open>
  A JavaScript string is modelled as a \<^typ>\<open>string\<close>; the model covers ASCII text, where
  one \<^typ>\<open>char\<close> is one UTF-16 code unit. A value that may be \<open>undefined\<close> (or \<open>null\<close>)
  is an option, \<^term>\<open>None\<close> standing for \<open>undefined\<close>.
\<close>

text \<open>\<open>String.prototype.indexOf\<close>: the first position at which the pattern occurs, \<open>-1\<close>
  when there is none; the empty pattern occurs at position 0.\<close>

fun indexOf_from :: "string \<Rightarrow> string \<Rightarrow> nat \<Rightarrow> int" where
  "indexOf_from [] pat i = (if pat = [] then int i else - 1)"
| "indexOf_from (c # cs) pat i =
     (if prefix pat (c # cs) then int i else indexOf_from cs pat (Suc i))"

definition indexOf :: "string \<Rightarrow> string \<Rightarrow> int" where
  "indexOf s pat = indexOf_from s pat 0"

text \<open>\<open>s.substring(0, k)\<close> for \<open>k \<ge> 0\<close>.\<close>

definition substring0 :: "string \<Rightarrow> int \<Rightarrow> string" where
  "substring0 s k = take (nat k) s"

text \<open>Truthiness of a possibly undefined string: \<open>undefined\<close> and \<open>''\<close> are falsy.\<close>

fun truthy :: "string option \<Rightarrow> bool" where
  "truthy None = False"
| "truthy (Some s) = (s \<noteq> [])"

section \<open>URL normalisation\<close>

text \<open>\<open>String.prototype.toLowerCase\<close> on ASCII text.\<close>

definition to_lower :: "char \<Rightarrow> char" where
  "to_lower c =
     (let n = (of_char c :: nat) in if 65 \<le> n \<and> n \<le> 90 then char_of (n + 32) else c)"

text \<open>
  \<open>url.parse(u).hash\<close> of Node's \<open>url\<close> module, as \<open>Url.prototype.parse\<close> computes it.
  The URL is trimmed of the characters with a code below 33 at its ends; unless its
  protocol is \<open>javascript:\<close>, the part after the host goes through \<open>autoEscapeStr\<close>,
  which writes tab, line feed, carriage return, space and the characters
  \<open>" ' < > \ ^ ` { | }\<close> as \<open>%\<close> and two hexadecimal digits; \<open>hash\<close> is then the text
  from the first \<open>#\<close> on (the \<open>#\<close> included), and stays \<open>null\<close> when there is no \<open>#\<close>.
  Nothing that \<open>parse\<close> does before the first \<open>#\<close> changes \<open>hash\<close>.
\<close>

definition is_ws :: "char \<Rightarrow> bool" where
  "is_ws c = ((of_char c :: nat) < 33)"

definition auto_escape :: "char \<Rightarrow> string" where
  "auto_escape c =
     (let n = (of_char c :: nat)
      in if n = 9 then ''%09'' else if n = 10 then ''%0A'' else if n = 13 then ''%0D''
         else if n = 32 then ''%20'' else if n = 34 then ''%22'' else if n = 39 then ''%27''
         else if n = 60 then ''%3C'' else if n = 62 then ''%3E'' else if n = 92 then ''%5C''
         else if n = 94 then ''%5E'' else if n = 96 then ''%60'' else if n = 123 then ''%7B''
         else if n = 124 then ''%7C'' else if n = 125 then ''%7D'' else [c])"

text \<open>The text from the first \<open>#\<close> on.\<close>

fun raw_hash :: "string \<Rightarrow> string option" where
  "raw_hash [] = None"
| "raw_hash (c # cs) = (if c = CHR ''#'' then Some (c # cs) else raw_hash cs)"

text \<open>The protocol for which \<open>parse\<close> leaves the rest of the URL unescaped.\<close>

definition unsafe_protocol :: "string \<Rightarrow> bool" where
  "unsafe_protocol u = prefix ''javascript:'' (map to_lower (dropWhile is_ws u))"

definition url_hash :: "string \<Rightarrow> string option" where
  "url_hash u =
     (case raw_hash u of
        None \<Rightarrow> None
      | Some h \<Rightarrow>
          (let trimmed = rev (dropWhile is_ws (rev h))
           in Some (if unsafe_protocol u then trimmed else concat (map auto_escape trimmed))))"

text \<open>
  \<open>JSSDK.normalizeUrl\<close> of the TypeScript class (\<open>part_001\<close>, lines 91-96):
  the search string is \<open>temp.hash || ''\<close>.
\<close>

definition normalizeUrl :: "string \<Rightarrow> string" where
  "normalizeUrl url =
     (let temp_hash = url_hash url;
          hashIndex = indexOf url (case temp_hash of None \<Rightarrow> [] | Some h \<Rightarrow> h)
      in if hashIndex > 0 then substring0 url hashIndex else url)"

text \<open>
  \<open>JSSDK.normalizeUrl\<close> of the JavaScript class (\<open>part_002\<close>, lines 87-92):
  the search string is \<open>temp.hash\<close> itself, and \<open>indexOf\<close> converts a \<open>null\<close> argument
  to the string \<open>null\<close>.
\<close>

definition normalizeUrl_js :: "string \<Rightarrow> string" where
  "normalizeUrl_js url =
     (let temp_hash = url_hash url;
          hashIndex = indexOf url (case temp_hash of None \<Rightarrow> ''null'' | Some h \<Rightarrow> h)
      in if hashIndex > 0 then substring0 url hashIndex else url)"

section \<open>Hashing and parameter strings\<close>

text \<open>
  Modelled from the spec: \<open>utils.genSHA1\<close> is not among the sources; the spec calls it the
  SHA-1 hex digest. The definitions below are SHA-1 as FIPS 180-4 gives it, over the bytes
  of the text, printed as 40 lower-case hexadecimal digits.
\<close>

type_synonym byte = "8 word"
type_synonym w32 = "32 word"

definition sha1_pad :: "byte list \<Rightarrow> byte list" where
  "sha1_pad m =
     (let l = length m; bits = (of_nat (8 * l) :: 64 word)
      in m @ [0x80] @ replicate ((119 - l mod 64) mod 64) 0
           @ map (\<lambda>i. ucast (drop_bit (8 * i) bits)) (rev [0..<8]))"

definition be32 :: "byte list \<Rightarrow> w32" where
  "be32 bs = foldl (\<lambda>acc b. push_bit 8 acc OR ucast b) 0 bs"

fun sha1_words :: "nat \<Rightarrow> byte list \<Rightarrow> w32 list" where
  "sha1_words 0 bs = []"
| "sha1_words (Suc n) bs = be32 (take 4 bs) # sha1_words n (drop 4 bs)"

fun sha1_blocks :: "nat \<Rightarrow> byte list \<Rightarrow> w32 list list" where
  "sha1_blocks 0 bs = []"
| "sha1_blocks (Suc n) bs = sha1_words 16 (take 64 bs) # sha1_blocks n (drop 64 bs)"

text \<open>Rotation to the left by \<open>n\<close> bits, \<open>0 < n < 32\<close>: \<open>(x << n) | (x >>> (32 - n))\<close>.\<close>

definition rotl :: "nat \<Rightarrow> w32 \<Rightarrow> w32" where
  "rotl n x = push_bit n x OR drop_bit (32 - n) x"

definition sha1_schedule :: "w32 list \<Rightarrow> w32 list" where
  "sha1_schedule block =
     fold (\<lambda>t w. w @ [rotl 1 (w ! (t - 3) XOR w ! (t - 8) XOR w ! (t - 14) XOR w ! (t - 16))])
          [16..<80] block"

definition sha1_f :: "nat \<Rightarrow> w32 \<Rightarrow> w32 \<Rightarrow> w32 \<Rightarrow> w32" where
  "sha1_f t b c d =
     (if t < 20 then (b AND c) OR (NOT b AND d)
      else if t < 40 then b XOR c XOR d
      else if t < 60 then (b AND c) OR (b AND d) OR (c AND d)
      else b XOR c XOR d)"

definition sha1_k :: "nat \<Rightarrow> w32" where
  "sha1_k t =
     (if t < 20 then 0x5A827999 else if t < 40 then 0x6ED9EBA1
      else if t < 60 then 0x8F1BBCDC else 0xCA62C1D6)"

type_synonym sha1_state = "w32 \<times> w32 \<times> w32 \<times> w32 \<times> w32"

definition sha1_round :: "w32 list \<Rightarrow> nat \<Rightarrow> sha1_state \<Rightarrow> sha1_state" where
  "sha1_round w t = (\<lambda>(a, b, c, d, e).
     (rotl 5 a + sha1_f t b c d + e + sha1_k t + w ! t, a, rotl 30 b, c, d))"

definition sha1_block :: "w32 list \<Rightarrow> sha1_state \<Rightarrow> sha1_state" where
  "sha1_block block = (\<lambda>(h0, h1, h2, h3, h4).
     (case fold (sha1_round (sha1_schedule block)) [0..<80] (h0, h1, h2, h3, h4) of
        (a, b, c, d, e) \<Rightarrow> (h0 + a, h1 + b, h2 + c, h3 + d, h4 + e)))"

definition hex_digit :: "nat \<Rightarrow> char" where
  "hex_digit n = ''0123456789abcdef'' ! (n mod 16)"

definition hex32 :: "w32 \<Rightarrow> string" where
  "hex32 w = map (\<lambda>i. hex_digit (unat (drop_bit (4 * i) w AND 15))) (rev [0..<8])"

definition genSHA1 :: "string \<Rightarrow> string" where
  "genSHA1 content =
     (let bs = sha1_pad (map (\<lambda>c. of_nat (of_char c)) content)
      in case fold sha1_block (sha1_blocks (length bs div 64) bs)
                (0x67452301, 0xEFCDAB89, 0x98BADCFE, 0x10325476, 0xC3D2E1F0) of
           (h0, h1, h2, h3, h4) \<Rightarrow> concat (map hex32 [h0, h1, h2, h3, h4]))"

text \<open>The 80 words of the message schedule for the one block of the text \<open>abc\<close>.\<close>

definition abc_schedule :: "w32 list" where
  "abc_schedule =
     [1633837952, 0, 0, 0, 0, 0, 0, 0, 0, 0, 0, 0, 0, 0, 0, 24, 3267675904, 0, 48,
      2240384513, 0, 96, 185801731, 48, 2240384705, 371603462, 0, 384, 743206924, 240,
      2477765895, 1486413896, 2392494594, 1536, 2972827888, 371604422, 1321128990,
      1650688161, 371603462, 6336, 3537975492, 3840, 989548665, 2307785957, 3803855915,
      24768, 87701453, 1950713159, 3667138029, 641206806, 1650688929, 1321161950,
      943043659, 62976, 512018339, 2564836760, 1696405152, 1650822305, 1166361814,
      1146637495, 2074109465, 1669377698, 182801001, 1652246945, 2094292125, 983040,
      4216354106, 3966199272, 3124505570, 6340608, 976735493, 1166362356, 3092880854,
      940186150, 31465987, 3888919638, 3873835881, 16124416, 1469443919, 2184054905]"

text \<open>\<open>Array.prototype.join\<close> on strings.\<close>

fun join :: "string \<Rightarrow> string list \<Rightarrow> string" where
  "join sep [] = []"
| "join sep [x] = x"
| "join sep (x # y # ys) = x @ sep @ join sep (y # ys)"

text \<open>
  Modelled from the spec: \<open>utils.paramsToString\<close> is not among the sources. The spec has
  the object serialised as \<open>key1=value1&key2=value2...\<close> with the keys sorted
  lexicographically and the values not URL-encoded; its fixture writes the key
  \<open>nonceStr\<close> as \<open>noncestr\<close>, so the keys are put in lower case. An object is the list
  of its own properties.
\<close>

definition paramsToString :: "(string \<times> string) list \<Rightarrow> string" where
  "paramsToString args =
     join ''&'' (map (\<lambda>(k, v). map to_lower k @ ''='' @ v) (sort_key fst args))"

section \<open>Data model\<close>

text \<open>
  Rejections are values. \<open>Error m\<close> is \<open>new Error(m)\<close>; \<open>TypeError\<close> is what Node's
  \<open>url.parse\<close> throws on an argument that is not a string. A rejection of the HTTP
  collaborator is the \<open>error\<close> value that the world supplies.
\<close>

datatype error = Error string | TypeError string

text \<open>Dates are milliseconds since the epoch; an optional field that is absent is \<^term>\<open>None\<close>.\<close>

text \<open>\<open>StoreGlobalTokenItem\<close>: the cached global access token and ticket.\<close>

record global_token =
  g_accessToken :: "string option"
  g_jsapi_ticket :: "string option"
  g_modifyDate :: "int option"

text \<open>\<open>StoreUrlSignatureItem\<close>, every field optional, so that the record also stands for
  the partial objects the code builds (the update payload, the filtered view, \<open>{}\<close>).\<close>

record sig_item =
  appId :: "string option"
  jsapi_ticket :: "string option"
  nonceStr :: "string option"
  timestamp :: "string option"
  url :: "string option"
  signature :: "string option"
  accessToken :: "string option"
  signatureName :: "string option"
  createDate :: "int option"
  modifyDate :: "int option"

text \<open>\<open>StoreOAuthItem\<close>: the reply of the OAuth endpoints and the cached record.\<close>

record oauth_item =
  access_token :: "string option"
  refresh_token :: "string option"
  openid :: "string option"
  expires_in :: "int option"
  expirationTime :: "int option"
  key :: "string option"
  o_createDate :: "int option"
  o_modifyDate :: "int option"

text \<open>The calls that reach the upstream HTTP collaborator, in the order they are made.\<close>

datatype upstream_call =
    AccessTokenCall
  | TicketCall "string option"
  | CodeExchangeCall string
  | RefreshTokenCall "string option"

text \<open>
  The state of one process: the store (in-memory maps, one per kind of record), the
  counter \<open>refreshedTimes\<close> of the JavaScript class, and the log of upstream calls.
\<close>

record state =
  st_global :: "global_token option"
  st_urls :: "string \<rightharpoonup> sig_item"
  st_oauth :: "string \<rightharpoonup> oauth_item"
  refreshedTimes :: nat
  calls :: "upstream_call list"

text \<open>
  What one call reads from outside: the clock (read once per call), the random nonce,
  the time stamp text of \<open>utils.timestamp()\<close>, and the replies of the upstream endpoints
  (\<open>result.access_token\<close>, \<open>ticketResult.ticket\<close>, the OAuth replies).
\<close>

record world =
  now :: int
  nonce :: string
  tstamp :: string
  accessTokenReply :: "error + string option"
  ticketReply :: "string option \<Rightarrow> error + string option"
  codeReply :: "string \<Rightarrow> error + oauth_item"
  refreshReply :: "string option \<Rightarrow> error + oauth_item"

text \<open>The configuration fields the code reads (\<open>this.options\<close>, \<open>this.wechatConfig\<close>).\<close>

record options =
  opt_appId :: string
  opt_wechatToken :: string

text \<open>A property key: \<open>undefined\<close> used as a key is the text \<open>undefined\<close>.\<close>

definition property_key :: "string option \<Rightarrow> string" where
  "property_key k = (case k of None \<Rightarrow> ''undefined'' | Some s \<Rightarrow> s)"

text \<open>The state after the constructor: an empty store, \<open>refreshedTimes = 0\<close>, no call made.\<close>

definition initial_state :: state where
  "initial_state =
     \<lparr> st_global = None, st_urls = Map.empty, st_oauth = Map.empty, refreshedTimes = 0,
       calls = [] \<rparr>"

text \<open>A world in which every upstream endpoint rejects.\<close>

definition offline :: world where
  "offline =
     \<lparr> now = 0, nonce = [], tstamp = [],
       accessTokenReply = Inl (Error ''offline''),
       ticketReply = (\<lambda>_. Inl (Error ''offline'')),
       codeReply = (\<lambda>_. Inl (Error ''offline'')),
       refreshReply = (\<lambda>_. Inl (Error ''offline'')) \<rparr>"

definition record_call :: "upstream_call \<Rightarrow> state \<Rightarrow> state" where
  "record_call c s = s\<lparr>calls := calls s @ [c]\<rparr>"

text \<open>\<open>a || b\<close> on possibly undefined strings.\<close>

definition or_else :: "string option \<Rightarrow> string option \<Rightarrow> string option" where
  "or_else a b = (if truthy a then a else b)"

text \<open>\<open>Object.assign(target, source)\<close>: every property the source has overwrites the
  target's.\<close>

definition pick :: "'a option \<Rightarrow> 'a option \<Rightarrow> 'a option" where
  "pick old new = (case new of None \<Rightarrow> old | Some v \<Rightarrow> Some v)"

definition assign_global :: "global_token \<Rightarrow> global_token \<Rightarrow> global_token" where
  "assign_global t src =
     \<lparr> g_accessToken = pick (g_accessToken t) (g_accessToken src),
       g_jsapi_ticket = pick (g_jsapi_ticket t) (g_jsapi_ticket src),
       g_modifyDate = pick (g_modifyDate t) (g_modifyDate src) \<rparr>"

definition assign_sig :: "sig_item \<Rightarrow> sig_item \<Rightarrow> sig_item" where
  "assign_sig t src =
     \<lparr> appId = pick (appId t) (appId src),
       jsapi_ticket = pick (jsapi_ticket t) (jsapi_ticket src),
       nonceStr = pick (nonceStr t) (nonceStr src),
       timestamp = pick (timestamp t) (timestamp src),
       url = pick (url t) (url src),
       signature = pick (signature t) (signature src),
       accessToken = pick (accessToken t) (accessToken src),
       signatureName = pick (signatureName t) (signatureName src),
       createDate = pick (createDate t) (createDate src),
       modifyDate = pick (modifyDate t) (modifyDate src) \<rparr>"

definition assign_oauth :: "oauth_item \<Rightarrow> oauth_item \<Rightarrow> oauth_item" where
  "assign_oauth t src =
     \<lparr> access_token = pick (access_token t) (access_token src),
       refresh_token = pick (refresh_token t) (refresh_token src),
       openid = pick (openid t) (openid src),
       expires_in = pick (expires_in t) (expires_in src),
       expirationTime = pick (expirationTime t) (expirationTime src),
       key = pick (key t) (key src),
       o_createDate = pick (o_createDate t) (o_createDate src),
       o_modifyDate = pick (o_modifyDate t) (o_modifyDate src) \<rparr>"

definition empty_global :: global_token where
  "empty_global = \<lparr> g_accessToken = None, g_jsapi_ticket = None, g_modifyDate = None \<rparr>"

definition empty_sig :: sig_item where
  "empty_sig =
     \<lparr> appId = None, jsapi_ticket = None, nonceStr = None, timestamp = None, url = None,
       signature = None, accessToken = None, signatureName = None, createDate = None,
       modifyDate = None \<rparr>"

definition empty_oauth :: oauth_item where
  "empty_oauth =
     \<lparr> access_token = None, refresh_token = None, openid = None, expires_in = None,
       expirationTime = None, key = None, o_createDate = None, o_modifyDate = None \<rparr>"

text \<open>A world in which every upstream endpoint answers.\<close>

definition online :: world where
  "online =
     \<lparr> now = 0, nonce = ''n456'', tstamp = ''1400000000'',
       accessTokenReply = Inr (Some ''TOKEN''),
       ticketReply = (\<lambda>_. Inr (Some ''TICKET'')),
       codeReply = (\<lambda>_. Inr (empty_oauth\<lparr>access_token := Some ''AT'', refresh_token := Some ''RT'',
                                 openid := Some ''OPENID'', expires_in := Some 7200\<rparr>)),
       refreshReply = (\<lambda>_. Inr (empty_oauth\<lparr>access_token := Some ''AT2'', refresh_token := Some ''RT'',
                                    openid := Some ''OPENID'', expires_in := Some 7200\<rparr>)) \<rparr>"

text \<open>A world whose code exchange answers without \<open>expires_in\<close>.\<close>

definition online_without_expiry :: world where
  "online_without_expiry =
     online\<lparr>codeReply := (\<lambda>_. Inr (empty_oauth\<lparr>access_token := Some ''AT'',
                                   refresh_token := Some ''RT'', openid := Some ''OPENID''\<rparr>))\<rparr>"

section \<open>The store\<close>

text \<open>
  Modelled from the spec: the classes \<open>Store\<close> and \<open>FileStore\<close> are not among the sources.
  The spec gives the store as in-memory maps for the three kinds of record, with
  \<open>getSignature(url)\<close>, \<open>signatureExists(url)\<close>, \<open>saveSignature(name, record)\<close>,
  \<open>updateSignature(url, partial)\<close>, \<open>updateGlobalToken(partial)\<close> (``merges and
  persists''), \<open>getOAuthToken(key)\<close>, \<open>saveOAuthToken(key, record)\<close> and
  \<open>updateOAuthToken(key, partial)\<close>; an update of a key without a record merges into the
  empty object. The in-memory store does not fail.
\<close>

definition store_updateGlobalToken :: "global_token \<Rightarrow> state \<Rightarrow> global_token \<times> state" where
  "store_updateGlobalToken info s =
     (let merged = assign_global (case st_global s of None \<Rightarrow> empty_global | Some g \<Rightarrow> g) info
      in (merged, s\<lparr>st_global := Some merged\<rparr>))"

definition store_isSignatureExisting :: "string option \<Rightarrow> state \<Rightarrow> bool" where
  "store_isSignatureExisting u s = (st_urls s (property_key u) \<noteq> None)"


definition store_saveSignature :: "string option \<Rightarrow> sig_item \<Rightarrow> state \<Rightarrow> sig_item \<times> state" where
  "store_saveSignature name sig s = (sig, s\<lparr>st_urls := (st_urls s)(property_key name \<mapsto> sig)\<rparr>)"

definition store_updateSignature :: "string \<Rightarrow> sig_item \<Rightarrow> state \<Rightarrow> sig_item \<times> state" where
  "store_updateSignature u info s =
     (let merged = assign_sig (case st_urls s u of None \<Rightarrow> empty_sig | Some r \<Rightarrow> r) info
      in (merged, s\<lparr>st_urls := (st_urls s)(u \<mapsto> merged)\<rparr>))"

definition store_getOAuthAccessToken :: "string option \<Rightarrow> state \<Rightarrow> oauth_item option" where
  "store_getOAuthAccessToken k s = st_oauth s (property_key k)"

definition store_saveOAuthAccessToken ::
  "string option \<Rightarrow> oauth_item \<Rightarrow> state \<Rightarrow> oauth_item \<times> state" where
  "store_saveOAuthAccessToken k info s =
     (info, s\<lparr>st_oauth := (st_oauth s)(property_key k \<mapsto> info)\<rparr>)"

definition store_updateOAuthAccessToken ::
  "string option \<Rightarrow> oauth_item \<Rightarrow> state \<Rightarrow> oauth_item \<times> state" where
  "store_updateOAuthAccessToken k info s =
     (let merged =
            assign_oauth (case st_oauth s (property_key k) of None \<Rightarrow> empty_oauth | Some r \<Rightarrow> r) info
      in (merged, s\<lparr>st_oauth := (st_oauth s)(property_key k \<mapsto> merged)\<rparr>))"

section \<open>The JavaScript class (\<open>part_002\<close>)\<close>

text \<open>\<open>REFRESH_INTERVAL\<close> (line 15): 1h 59m in milliseconds.\<close>

definition REFRESH_INTERVAL :: int where
  "REFRESH_INTERVAL = 1000 * 119 * 60"

text \<open>
  \<open>JSSDK.isTokenExpired\<close> (lines 50-52) at clock reading \<open>t\<close>. A missing \<open>modifyDate\<close>
  gives an invalid date, whose time is \<open>NaN\<close>, and every comparison with \<open>NaN\<close> is false.
\<close>

definition isTokenExpired :: "int \<Rightarrow> int option \<Rightarrow> bool" where
  "isTokenExpired t md =
     (case md of None \<Rightarrow> False | Some m \<Rightarrow> t - m > REFRESH_INTERVAL)"

text \<open>The interval of the timer that the constructor starts (line 41), and what the
  timer does when it fires.\<close>

definition COUNTER_RESET_INTERVAL :: int where
  "COUNTER_RESET_INTERVAL = 1000 * 7200"

definition counter_timer_fires :: "state \<Rightarrow> state" where
  "counter_timer_fires s = s\<lparr>refreshedTimes := 0\<rparr>"

text \<open>\<open>updateAccessTokenOrTicketGlobally\<close> (lines 157-162).\<close>

definition updateAccessTokenOrTicketGlobally ::
  "int \<Rightarrow> string option \<Rightarrow> string option \<Rightarrow> state \<Rightarrow> global_token \<times> state" where
  "updateAccessTokenOrTicketGlobally t token ticket s =
     (let info = \<lparr> g_accessToken = (if truthy token then token else None),
                   g_jsapi_ticket = (if truthy ticket then ticket else None),
                   g_modifyDate = Some t \<rparr>
      in store_updateGlobalToken info s)"

text \<open>\<open>getNewTokenAndTicket\<close> (lines 170-197).\<close>

definition getNewTokenAndTicket :: "world \<Rightarrow> bool \<Rightarrow> state \<Rightarrow> (error + global_token) \<times> state" where
  "getNewTokenAndTicket w force s =
     (let s1 = (if force then s else s\<lparr>refreshedTimes := refreshedTimes s + 1\<rparr>)
      in if \<not> force \<and> refreshedTimes s1 > 5
         then (Inl (Error ''maximum manual refresh threshold reached!''), s1)
         else
           (let s2 = record_call AccessTokenCall s1
            in case accessTokenReply w of
                 Inl reason \<Rightarrow> (Inl reason, s2)
               | Inr tok \<Rightarrow>
                   (let s3 = record_call (TicketCall tok) s2
                    in (case ticketReply w tok of
                          Inl ticketReason \<Rightarrow> (Inl ticketReason, s3)
                        | Inr ticket \<Rightarrow>
                            (case updateAccessTokenOrTicketGlobally (now w) tok ticket s3 of
                               (g, s4) \<Rightarrow> (Inr g, s4))))))"

text \<open>\<open>prepareNewSignature\<close> (lines 203-213).\<close>

definition prepareNewSignature :: "world \<Rightarrow> state \<Rightarrow> (error + global_token) \<times> state" where
  "prepareNewSignature w s =
     (case st_global s of
        None \<Rightarrow> getNewTokenAndTicket w True s
      | Some globalToken \<Rightarrow>
          if \<not> truthy (g_accessToken globalToken) \<or> isTokenExpired (now w) (g_modifyDate globalToken)
          then getNewTokenAndTicket w True s
          else (Inr globalToken, s))"

text \<open>Calls of \<open>getNewTokenAndTicket\<close> one after the other, each with its own world and
  its own \<open>force\<close> flag; the state is handed on.\<close>

fun refresh_sequence :: "(world \<times> bool) list \<Rightarrow> state \<Rightarrow> state" where
  "refresh_sequence [] s = s"
| "refresh_sequence ((w, force) # cs) s =
     refresh_sequence cs (snd (getNewTokenAndTicket w force s))"

text \<open>The number of calls of the access-token endpoint made so far.\<close>

definition token_calls :: "state \<Rightarrow> nat" where
  "token_calls s = length (filter (\<lambda>c. c = AccessTokenCall) (calls s))"

text \<open>\<open>genSignature\<close> (lines 222-233): the object handed to \<open>paramsToString\<close> has the four
  properties of the literal; \<open>signature\<close> and \<open>accessToken\<close> are added afterwards.\<close>

definition genSignature :: "world \<Rightarrow> string \<Rightarrow> string \<Rightarrow> string \<Rightarrow> sig_item" where
  "genSignature w ticket u accessTok =
     (let ret = [(''jsapi_ticket'', ticket), (''nonceStr'', nonce w),
                 (''timestamp'', tstamp w), (''url'', normalizeUrl_js u)];
          originalStr = paramsToString ret
      in empty_sig\<lparr> jsapi_ticket := Some ticket, nonceStr := Some (nonce w),
                    timestamp := Some (tstamp w), url := Some (normalizeUrl_js u),
                    signature := Some (genSHA1 originalStr), accessToken := Some accessTok \<rparr>)"

text \<open>\<open>updateSignatureByUrl\<close> (lines 264-274). \<open>url.parse\<close> throws on \<open>undefined\<close>.\<close>

definition updateSignatureByUrl ::
  "world \<Rightarrow> string option \<Rightarrow> sig_item \<Rightarrow> state \<Rightarrow> (error + sig_item) \<times> state" where
  "updateSignatureByUrl w u info s =
     (case u of
        None \<Rightarrow> (Inl (TypeError ''url''), s)
      | Some u0 \<Rightarrow>
          let u1 = normalizeUrl_js u0;
              info1 = info\<lparr>modifyDate := Some (now w), url := None, signatureName := None\<rparr>
          in case store_updateSignature u1 info1 s of (sig, s') \<Rightarrow> (Inr sig, s'))"

text \<open>\<open>saveNewSignature\<close> (lines 240-256).\<close>

definition saveNewSignature :: "world \<Rightarrow> sig_item \<Rightarrow> state \<Rightarrow> (error + sig_item) \<times> state" where
  "saveNewSignature w info s =
     (let sg = info\<lparr>createDate := Some (now w), modifyDate := Some (now w)\<rparr>
      in if store_isSignatureExisting (url sg) s
         then updateSignatureByUrl w (url sg) sg s
         else case store_saveSignature (signatureName sg) sg s of (sig, s') \<Rightarrow> (Inr sig, s'))"

section \<open>The TypeScript class (\<open>part_001\<close>)\<close>



text \<open>\<open>generateSignature\<close> (lines 106-123): the object handed to \<open>paramsToString\<close> is the
  literal, with its six properties.\<close>

definition generateSignature :: "world \<Rightarrow> string \<Rightarrow> string \<Rightarrow> string \<Rightarrow> sig_item" where
  "generateSignature w u accessTok ticket =
     (let ret = [(''jsapi_ticket'', ticket), (''nonceStr'', nonce w),
                 (''timestamp'', tstamp w), (''url'', normalizeUrl u),
                 (''signature'', []), (''accessToken'', [])];
          originalStr = paramsToString ret
      in empty_sig\<lparr> jsapi_ticket := Some ticket, nonceStr := Some (nonce w),
                    timestamp := Some (tstamp w), url := Some (normalizeUrl u),
                    signature := Some (genSHA1 originalStr), accessToken := Some accessTok \<rparr>)"

text \<open>\<open>updateSignature\<close> (lines 243-254).\<close>

definition updateSignature ::
  "world \<Rightarrow> string option \<Rightarrow> sig_item \<Rightarrow> state \<Rightarrow> (error + sig_item) \<times> state" where
  "updateSignature w u info s =
     (case u of
        None \<Rightarrow> (Inl (TypeError ''url''), s)
      | Some u0 \<Rightarrow>
          let u1 = normalizeUrl u0;
              info1 = info\<lparr>modifyDate := Some (now w), createDate := None, signatureName := None\<rparr>
          in case store_updateSignature u1 info1 s of (sig, s') \<Rightarrow> (Inr sig, s'))"

text \<open>\<open>saveSignature\<close> (lines 217-235).\<close>

definition saveSignature :: "world \<Rightarrow> sig_item \<Rightarrow> state \<Rightarrow> (error + sig_item) \<times> state" where
  "saveSignature w info s =
     (let sg = info\<lparr>createDate := Some (now w), modifyDate := Some (now w)\<rparr>
      in if store_isSignatureExisting (url sg) s
         then updateSignature w (url sg) sg s
         else if \<not> truthy (signatureName sg)
         then (Inl (Error ''signature.signatureName is undefined''), s)
         else case store_saveSignature (signatureName sg) sg s of (sig, s') \<Rightarrow> (Inr sig, s'))"





text \<open>A stored record for \<open>http://example.com/page\<close>, created at time 1000.\<close>

definition example_record :: sig_item where
  "example_record =
     \<lparr> appId = None, jsapi_ticket = Some ''TICKET'', nonceStr = Some ''n456'',
       timestamp = Some ''1400000000'', url = Some ''http://example.com/page'',
       signature = Some ''0f9de62fce790f9a083d5c99e95740ceb90c27ed'',
       accessToken = Some ''TOKEN'', signatureName = Some ''http://example.com/page'',
       createDate = Some 1000, modifyDate = Some 1000 \<rparr>"

text \<open>A cached OAuth record that expires at time 5000.\<close>

definition example_token :: oauth_item where
  "example_token =
     \<lparr> access_token = Some ''AT0'', refresh_token = Some ''RT'', openid = Some ''OPENID'',
       expires_in = Some 7200, expirationTime = Some 5000, key = Some ''OPENID'',
       o_createDate = Some 0, o_modifyDate = Some 0 \<rparr>"

section \<open>Webhook verification (both classes)\<close>

text \<open>The query of the request: each field may be missing.\<close>

record query =
  q_timestamp :: "string option"
  q_nonce :: "string option"
  q_signature :: "string option"

text \<open>\<open>Array.prototype.sort\<close> without a comparator on strings and \<open>undefined\<close>: the strings
  in code unit order, then the \<open>undefined\<close> elements; \<open>join\<close> writes \<open>undefined\<close> as the
  empty string.\<close>

definition js_sort :: "string option list \<Rightarrow> string option list" where
  "js_sort xs = map Some (sort (List.map_filter (\<lambda>x. x) xs)) @ filter (\<lambda>x. x = None) xs"

definition js_join :: "string \<Rightarrow> string option list \<Rightarrow> string" where
  "js_join sep xs = join sep (map (\<lambda>x. case x of None \<Rightarrow> [] | Some x' \<Rightarrow> x') xs)"

text \<open>\<open>verifySignature\<close> (\<open>part_001\<close> lines 130-135, \<open>part_002\<close> lines 100-105).\<close>

definition verifySignature :: "options \<Rightarrow> query \<Rightarrow> bool" where
  "verifySignature opts q =
     (let keys = [Some (opt_wechatToken opts), q_timestamp q, q_nonce q];
          str = js_join [] (js_sort keys);
          str' = genSHA1 str
      in Some str' = q_signature q)"

section \<open>OAuth (\<open>lib/OAuth.ts\<close>)\<close>

text \<open>\<open>setAccessTokenExpirationTime\<close> (lines 94-101) at clock reading \<open>t\<close>; \<open>!expires_in\<close>
  holds for a missing field and for 0.\<close>

definition setAccessTokenExpirationTime :: "int \<Rightarrow> oauth_item \<Rightarrow> oauth_item" where
  "setAccessTokenExpirationTime t tokenInfo =
     (case expires_in tokenInfo of
        None \<Rightarrow> tokenInfo
      | Some e \<Rightarrow>
          if e = 0 then tokenInfo
          else tokenInfo\<lparr>expirationTime := Some (t + (e - 60) * 1000)\<rparr>)"

text \<open>\<open>isAccessTokenExpired\<close> (lines 308-311) at clock reading \<open>t\<close>.\<close>

definition isAccessTokenExpired :: "int \<Rightarrow> oauth_item \<Rightarrow> bool" where
  "isAccessTokenExpired t tokenInfo =
     (case expirationTime tokenInfo of
        None \<Rightarrow> True
      | Some e \<Rightarrow> if e = 0 then True else t - e \<ge> 0)"

text \<open>\<open>getAccessTokenRemotely\<close> (lines 196-221).\<close>

definition getAccessTokenRemotely ::
  "world \<Rightarrow> string \<Rightarrow> string option \<Rightarrow> state \<Rightarrow> (error + oauth_item) \<times> state" where
  "getAccessTokenRemotely w code k s =
     (let s1 = record_call (CodeExchangeCall code) s
      in case codeReply w code of
           Inl reason \<Rightarrow> (Inl reason, s1)
         | Inr reply \<Rightarrow>
             let data = setAccessTokenExpirationTime (now w) reply;
                 oauthKey = or_else k (openid data);
                 data' = data\<lparr>key := oauthKey, o_createDate := Some (now w),
                              o_modifyDate := Some (now w)\<rparr>
             in case store_saveOAuthAccessToken oauthKey data' s1 of
                  (saved, s2) \<Rightarrow> (Inr saved, s2))"

text \<open>\<open>refreshAccessToken\<close> (lines 229-255).\<close>

definition refreshAccessToken ::
  "world \<Rightarrow> string option \<Rightarrow> oauth_item \<Rightarrow> state \<Rightarrow> (error + oauth_item) \<times> state" where
  "refreshAccessToken w k tokenInfo s =
     (let s1 = record_call (RefreshTokenCall (refresh_token tokenInfo)) s
      in case refreshReply w (refresh_token tokenInfo) of
           Inl err \<Rightarrow> (Inl err, s1)
         | Inr reply \<Rightarrow>
             let data = setAccessTokenExpirationTime (now w) reply;
                 oauthKey = or_else k (openid data);
                 data' = data\<lparr>o_modifyDate := Some (now w)\<rparr>
             in case store_updateOAuthAccessToken oauthKey data' s1 of
                  (updated, s2) \<Rightarrow> (Inr updated, s2))"

text \<open>\<open>getAccessToken\<close> (lines 174-188).\<close>

definition getAccessToken ::
  "world \<Rightarrow> string option \<Rightarrow> string option \<Rightarrow> state \<Rightarrow> (error + oauth_item) \<times> state" where
  "getAccessToken w code k s =
     (case (if truthy code then code else None) of
        Some c \<Rightarrow> getAccessTokenRemotely w c k s
      | None \<Rightarrow>
          (case store_getOAuthAccessToken k s of
             None \<Rightarrow> (Inl (Error ''please get new code!''), s)
           | Some tokenInfo \<Rightarrow>
               if isAccessTokenExpired (now w) tokenInfo
               then refreshAccessToken w k tokenInfo s
               else (Inr tokenInfo, s)))"

section \<open>SHA-1: the test vector \<open>abc\<close>\<close>

lemma sha1_abc_blocks:
  "sha1_blocks (length (sha1_pad (map (\<lambda>c. of_nat (of_char c)) ''abc'')) div 64)
     (sha1_pad (map (\<lambda>c. of_nat (of_char c)) ''abc''))
   = [[1633837952, 0, 0, 0, 0, 0, 0, 0, 0, 0, 0, 0, 0, 0, 0, 24]]"
  by code_simp

lemma sha1_abc_schedule:
  "sha1_schedule [1633837952, 0, 0, 0, 0, 0, 0, 0, 0, 0, 0, 0, 0, 0, 0, 24] = abc_schedule"
  by (simp add: sha1_schedule_def abc_schedule_def upt_rec rotl_def)

lemma sha1_abc_rounds_20:
  "fold (sha1_round abc_schedule) [0..<20]
     (0x67452301, 0xEFCDAB89, 0x98BADCFE, 0x10325476, 0xC3D2E1F0)
   = (4254997885, 3697578013, 548051402, 3550778888, 3358553483)"
  by (simp add: sha1_round_def sha1_f_def sha1_k_def abc_schedule_def upt_rec rotl_def)

lemma sha1_abc_rounds_40:
  "fold (sha1_round abc_schedule) [20..<40]
     (4254997885, 3697578013, 548051402, 3550778888, 3358553483)
   = (853417146, 1285055493, 4145604047, 64243702, 4147047474)"
  by (simp add: sha1_round_def sha1_f_def sha1_k_def abc_schedule_def upt_rec rotl_def)

lemma sha1_abc_rounds_60:
  "fold (sha1_round abc_schedule) [40..<60]
     (853417146, 1285055493, 4145604047, 64243702, 4147047474)
   = (1062395482, 165119485, 882425812, 4061233743, 3617133995)"
  by (simp add: sha1_round_def sha1_f_def sha1_k_def abc_schedule_def upt_rec rotl_def)

lemma sha1_abc_rounds_80:
  "fold (sha1_round abc_schedule) [60..<80]
     (1062395482, 165119485, 882425812, 4061233743, 3617133995)
   = (1112808245, 1463342561, 562251891, 1746824694, 3640522413)"
  by (simp add: sha1_round_def sha1_f_def sha1_k_def abc_schedule_def upt_rec rotl_def)

lemma sha1_abc_rounds:
  "fold (sha1_round abc_schedule) [0..<80]
     (0x67452301, 0xEFCDAB89, 0x98BADCFE, 0x10325476, 0xC3D2E1F0)
   = (1112808245, 1463342561, 562251891, 1746824694, 3640522413)"
proof -
  have "[0..<80] = [0..<20] @ [20..<40] @ [40..<60] @ [60..<80]"
    by (simp add: upt_rec)
  then show ?thesis
    by (simp only: fold_append o_apply sha1_abc_rounds_20 sha1_abc_rounds_40
        sha1_abc_rounds_60 sha1_abc_rounds_80)
qed

lemma sha1_abc_hex:
  "concat (map hex32 [0x67452301 + 1112808245, 0xEFCDAB89 + 1463342561, 0x98BADCFE + 562251891,
                      0x10325476 + 1746824694, 0xC3D2E1F0 + 3640522413])
   = ''a9993e364706816aba3e25717850c26c9cd0d89d''"
  by code_simp

text \<open>The model computes the digest that FIPS 180 gives for the text \<open>abc\<close>.\<close>

lemma genSHA1_abc: "genSHA1 ''abc'' = ''a9993e364706816aba3e25717850c26c9cd0d89d''"
  unfolding genSHA1_def Let_def sha1_abc_blocks
  by (simp only: fold.simps id_apply o_apply sha1_block_def sha1_abc_schedule sha1_abc_rounds
      prod.case sha1_abc_hex)

section \<open>Parameter strings and signatures\<close>

lemma char_of_lower:
  "char_of (115::nat) = CHR ''s''"
  "char_of (116::nat) = CHR ''t''"
  by code_simp+

lemma paramsToString_four:
  "paramsToString [(''jsapi_ticket'', ticket), (''nonceStr'', n), (''timestamp'', ts), (''url'', u)] =
     ''jsapi_ticket='' @ ticket @ ''&noncestr='' @ n @ ''&timestamp='' @ ts @ ''&url='' @ u"
  by (simp add: paramsToString_def to_lower_def char_of_lower)

lemma paramsToString_six:
  "paramsToString [(''jsapi_ticket'', ticket), (''nonceStr'', n), (''timestamp'', ts), (''url'', u),
                   (''signature'', []), (''accessToken'', [])] =
     ''accesstoken=&jsapi_ticket='' @ ticket @ ''&noncestr='' @ n @ ''&signature=&timestamp='' @ ts
       @ ''&url='' @ u"
  by (simp add: paramsToString_def to_lower_def char_of_lower)

text \<open>The JavaScript class signs the canonical string of the four-tuple.\<close>

lemma genSignature_signature:
  "signature (genSignature w ticket u tok) =
     Some (genSHA1 (''jsapi_ticket='' @ ticket @ ''&noncestr='' @ nonce w @ ''&timestamp='' @ tstamp w
                      @ ''&url='' @ normalizeUrl_js u))"
  by (simp add: genSignature_def Let_def paramsToString_four del: append.simps)

text \<open>The TypeScript class signs a string that also holds the two empty properties.\<close>

lemma generateSignature_signature:
  "signature (generateSignature w u tok ticket) =
     Some (genSHA1 (''accesstoken=&jsapi_ticket='' @ ticket @ ''&noncestr='' @ nonce w
                      @ ''&signature=&timestamp='' @ tstamp w @ ''&url='' @ normalizeUrl u))"
  by (simp add: generateSignature_def Let_def paramsToString_six)

text \<open>
  C1. \<open>generateSignature\<close> should sign the canonical string of exactly the four-tuple
  \<open>{jsapi_ticket, nonceStr, timestamp, url}\<close>. At the fixture of the spec the TypeScript
  \<open>generateSignature\<close> signs a different string: the object it serialises already holds
  \<open>signature: ''\<close> and \<open>accessToken: ''\<close>, so the string starts with \<open>accesstoken=&\<close> and
  contains \<open>signature=&\<close>. The JavaScript \<open>genSignature\<close> signs the string of the spec.
\<close>

theorem generateSignature_fixture:
  "signature (generateSignature (w\<lparr>nonce := ''n456'', tstamp := ''1400000000''\<rparr>)
                ''http://example.com/page'' tok ''t123'') =
     Some (genSHA1 ''accesstoken=&jsapi_ticket=t123&noncestr=n456&signature=&timestamp=1400000000&url=http://example.com/page'') \<and>
   ''accesstoken=&jsapi_ticket=t123&noncestr=n456&signature=&timestamp=1400000000&url=http://example.com/page''
     \<noteq> ''jsapi_ticket=t123&noncestr=n456&timestamp=1400000000&url=http://example.com/page'' \<and>
   signature (genSignature (w\<lparr>nonce := ''n456'', tstamp := ''1400000000''\<rparr>)
                ''t123'' ''http://example.com/page'' tok) =
     Some (genSHA1 ''jsapi_ticket=t123&noncestr=n456&timestamp=1400000000&url=http://example.com/page'')"
  by (simp add: generateSignature_signature genSignature_signature normalizeUrl_def
      normalizeUrl_js_def indexOf_def substring0_def url_hash_def)

section \<open>URL normalisation\<close>

lemmas url_eval =
  url_hash_def unsafe_protocol_def is_ws_def auto_escape_def to_lower_def Let_def

lemma raw_hash_no_hash: "CHR ''#'' \<notin> set u \<Longrightarrow> raw_hash u = None"
  by (induction u) auto

lemma raw_hash_split:
  "CHR ''#'' \<notin> set p \<Longrightarrow> raw_hash (p @ CHR ''#'' # f) = Some (CHR ''#'' # f)"
  by (induction p) auto

lemma url_hash_no_hash: "CHR ''#'' \<notin> set u \<Longrightarrow> url_hash u = None"
  by (simp add: url_hash_def raw_hash_no_hash)

lemma auto_escape_plain:
  "\<forall>c \<in> set xs. auto_escape c = [c] \<Longrightarrow> concat (map auto_escape xs) = xs"
  by (induction xs) auto

lemma trim_plain:
  "\<forall>c \<in> set xs. \<not> is_ws c \<Longrightarrow> rev (dropWhile is_ws (rev xs)) = xs"
  by (cases xs rule: rev_cases) auto

text \<open>A fragment that \<open>parse\<close> neither trims nor escapes is returned as it is written.\<close>

lemma url_hash_split:
  assumes "CHR ''#'' \<notin> set p" and "\<forall>c \<in> set f. auto_escape c = [c] \<and> \<not> is_ws c"
  shows "url_hash (p @ CHR ''#'' # f) = Some (CHR ''#'' # f)"
proof -
  have e: "\<forall>c \<in> set (CHR ''#'' # f). auto_escape c = [c]"
    using assms(2) by (simp add: auto_escape_def)
  have w: "\<forall>c \<in> set (CHR ''#'' # f). \<not> is_ws c"
    using assms(2) by (simp add: is_ws_def)
  show ?thesis
    by (simp only: url_hash_def raw_hash_split [OF assms(1)] option.case Let_def
        trim_plain [OF w] auto_escape_plain [OF e] if_cancel)
qed

lemma indexOf_from_hash:
  "CHR ''#'' \<notin> set p \<Longrightarrow>
   indexOf_from (p @ CHR ''#'' # f) (CHR ''#'' # f) i = int (i + length p)"
  by (induction p arbitrary: i) auto

lemma indexOf_empty: "indexOf s [] = 0"
  by (cases s) (simp_all add: indexOf_def)

text \<open>
  With a non-empty part \<open>p\<close> before the first \<open>#\<close> and a fragment that \<open>parse\<close> neither
  trims nor escapes, both classes cut the URL down to \<open>p\<close>, whatever the fragment: two
  such URLs that differ in the fragment only get the same key. The TypeScript class
  leaves a URL without \<open>#\<close> as it is.
\<close>

lemma normalizeUrl_strips:
  assumes "CHR ''#'' \<notin> set p" and "p \<noteq> []"
    and "\<forall>c \<in> set f. auto_escape c = [c] \<and> \<not> is_ws c"
  shows "normalizeUrl (p @ CHR ''#'' # f) = p"
  using assms(1,2)
  by (simp add: normalizeUrl_def url_hash_split [OF assms(1,3)] indexOf_def indexOf_from_hash
      substring0_def)

lemma normalizeUrl_no_hash:
  assumes "CHR ''#'' \<notin> set u"
  shows "normalizeUrl u = u"
  using assms by (simp add: normalizeUrl_def url_hash_no_hash indexOf_empty)

lemma normalizeUrl_js_strips:
  assumes "CHR ''#'' \<notin> set p" and "p \<noteq> []"
    and "\<forall>c \<in> set f. auto_escape c = [c] \<and> \<not> is_ws c"
  shows "normalizeUrl_js (p @ CHR ''#'' # f) = p"
  using assms(1,2)
  by (simp add: normalizeUrl_js_def url_hash_split [OF assms(1,3)] indexOf_def indexOf_from_hash
      substring0_def)

text \<open>
  A fragment with a character that \<open>parse\<close> escapes is not found in the URL, and both
  classes return the URL with its fragment.
\<close>

lemma normalizeUrl_escaped_fragment:
  "url_hash ''http://example.com/page#a b'' = Some ''#a%20b'' \<and>
   normalizeUrl ''http://example.com/page#a b'' = ''http://example.com/page#a b'' \<and>
   normalizeUrl_js ''http://example.com/page#a b'' = ''http://example.com/page#a b''"
  by (simp add: normalizeUrl_def normalizeUrl_js_def indexOf_def substring0_def url_eval)

text \<open>
  C8. A URL without a fragment should come back unchanged. The JavaScript
  \<open>normalizeUrl\<close> searches the URL for the text \<open>null\<close> when there is no fragment, and
  cuts \<open>http://example.com/null\<close> down to \<open>http://example.com/\<close>; the TypeScript
  \<open>normalizeUrl\<close> returns that URL as it is.
\<close>

theorem normalizeUrl_js_null_path:
  "url_hash ''http://example.com/null'' = None \<and>
   normalizeUrl_js ''http://example.com/null'' = ''http://example.com/'' \<and>
   normalizeUrl ''http://example.com/null'' = ''http://example.com/null''"
  by (simp add: normalizeUrl_js_def normalizeUrl_def indexOf_def substring0_def url_hash_def)

section \<open>Webhook verification\<close>

lemma verifySignature_defined:
  "verifySignature opts \<lparr>q_timestamp = Some ts, q_nonce = Some n, q_signature = sg\<rparr>
     \<longleftrightarrow> sg = Some (genSHA1 (concat (sort [opt_wechatToken opts, ts, n])))"
  by (auto simp: verifySignature_def js_join_def js_sort_def List.map_filter_def Let_def)

lemma join_empty: "join [] xs = concat xs"
  by (induction "[] :: string" xs rule: join.induct) simp_all

text \<open>
  C5, as the code has it. \<open>verifySignature\<close> is true exactly when the \<open>signature\<close> of the
  query is the SHA-1 hex digest of the three values, sorted and joined (for a query that
  has \<open>timestamp\<close> and \<open>nonce\<close>: of the concatenation of the sorted list). A query that
  verifies stops verifying when its \<open>signature\<close> is changed. The digest does not depend
  on which value is in which field: with \<open>timestamp\<close> and \<open>nonce\<close> exchanged the answer is
  the same.
\<close>

theorem verifySignature_digest:
  "(verifySignature opts q \<longleftrightarrow>
      q_signature q = Some (genSHA1 (js_join [] (js_sort [Some (opt_wechatToken opts), q_timestamp q, q_nonce q])))) \<and>
   (q_timestamp q = Some ts \<and> q_nonce q = Some n \<longrightarrow>
      (verifySignature opts q \<longleftrightarrow>
         q_signature q = Some (genSHA1 (concat (sort [opt_wechatToken opts, ts, n]))))) \<and>
   (verifySignature opts q \<and> sg' \<noteq> q_signature q \<longrightarrow>
      \<not> verifySignature opts (q\<lparr>q_signature := sg'\<rparr>)) \<and>
   (verifySignature opts (q\<lparr>q_timestamp := q_nonce q, q_nonce := q_timestamp q\<rparr>)
      \<longleftrightarrow> verifySignature opts q)"
proof (intro conjI impI)
  show "verifySignature opts q \<longleftrightarrow>
      q_signature q = Some (genSHA1 (js_join [] (js_sort [Some (opt_wechatToken opts), q_timestamp q, q_nonce q])))"
    by (auto simp: verifySignature_def Let_def)
  show "verifySignature opts q \<longleftrightarrow>
         q_signature q = Some (genSHA1 (concat (sort [opt_wechatToken opts, ts, n])))"
    if "q_timestamp q = Some ts \<and> q_nonce q = Some n"
    using that verifySignature_defined [of opts ts n "q_signature q"]
    by (cases q) simp
  show "\<not> verifySignature opts (q\<lparr>q_signature := sg'\<rparr>)"
    if "verifySignature opts q \<and> sg' \<noteq> q_signature q"
    using that by (auto simp: verifySignature_def Let_def)
  have "sort (List.map_filter (\<lambda>x. x) [Some (opt_wechatToken opts), q_nonce q, q_timestamp q])
      = sort (List.map_filter (\<lambda>x. x) [Some (opt_wechatToken opts), q_timestamp q, q_nonce q])"
    by (cases "q_nonce q"; cases "q_timestamp q")
       (simp_all add: List.map_filter_def insort_left_comm del: insort_key.simps)
  moreover have "filter (\<lambda>x. x = None) [Some (opt_wechatToken opts), q_nonce q, q_timestamp q]
      = filter (\<lambda>x. x = None) [Some (opt_wechatToken opts), q_timestamp q, q_nonce q]"
    by (cases "q_nonce q"; cases "q_timestamp q") simp_all
  ultimately show "verifySignature opts (q\<lparr>q_timestamp := q_nonce q, q_nonce := q_timestamp q\<rparr>)
      \<longleftrightarrow> verifySignature opts q"
    by (simp add: verifySignature_def Let_def js_sort_def)
qed

theorem verifySignature_digest_witness:
  "q_timestamp \<lparr>q_timestamp = Some ''1400000000'', q_nonce = Some ''abc'',
       q_signature = Some (genSHA1 ''1400000000abcsecret'')\<rparr> = Some ''1400000000'' \<and>
   q_nonce \<lparr>q_timestamp = Some ''1400000000'', q_nonce = Some ''abc'',
       q_signature = Some (genSHA1 ''1400000000abcsecret'')\<rparr> = Some ''abc'' \<and>
   verifySignature \<lparr>opt_appId = ''wx1'', opt_wechatToken = ''secret''\<rparr>
     \<lparr>q_timestamp = Some ''1400000000'', q_nonce = Some ''abc'',
       q_signature = Some (genSHA1 ''1400000000abcsecret'')\<rparr> \<and>
   None \<noteq> q_signature \<lparr>q_timestamp = Some ''1400000000'', q_nonce = Some ''abc'',
       q_signature = Some (genSHA1 ''1400000000abcsecret'')\<rparr> \<and>
   \<not> verifySignature \<lparr>opt_appId = ''wx1'', opt_wechatToken = ''secret''\<rparr>
     \<lparr>q_timestamp = Some ''1400000000'', q_nonce = Some ''abc'', q_signature = None\<rparr>"
  using verifySignature_digest
    [where opts = "\<lparr>opt_appId = ''wx1'', opt_wechatToken = ''secret''\<rparr>"
       and q = "\<lparr>q_timestamp = Some ''1400000000'', q_nonce = Some ''abc'',
                 q_signature = Some (genSHA1 ''1400000000abcsecret'')\<rparr>"
       and ts = "''1400000000''" and n = "''abc''" and sg' = None]
  by (simp add: verifySignature_defined)

text \<open>
  C5, as the spec words it (false whenever a field is tampered with), fails: with the
  token \<open>0\<close> and the nonce \<open>121\<close>, the query with \<open>timestamp = 12\<close> and the query with
  \<open>timestamp = 21\<close> have the same sorted concatenation \<open>012121\<close>, so the signature of
  the first verifies the second, in which only the time stamp was changed.
\<close>

theorem verifySignature_tampered_accepted:
  "verifySignature \<lparr>opt_appId = ''wx1'', opt_wechatToken = ''0''\<rparr>
     \<lparr>q_timestamp = Some ''12'', q_nonce = Some ''121'', q_signature = Some (genSHA1 ''012121'')\<rparr> \<and>
   verifySignature \<lparr>opt_appId = ''wx1'', opt_wechatToken = ''0''\<rparr>
     \<lparr>q_timestamp = Some ''21'', q_nonce = Some ''121'', q_signature = Some (genSHA1 ''012121'')\<rparr> \<and>
   ''12'' \<noteq> ''21''"
  by (simp add: verifySignature_defined)

section \<open>The global token: refresh limit and expiry\<close>

text \<open>What a call of \<open>getNewTokenAndTicket\<close> that passes the counter test does.\<close>

lemma getNewTokenAndTicket_passes:
  assumes "force \<or> refreshedTimes s < 5"
  shows "getNewTokenAndTicket w force s =
     (let s1 = (if force then s else s\<lparr>refreshedTimes := refreshedTimes s + 1\<rparr>)
      in case accessTokenReply w of
           Inl reason \<Rightarrow> (Inl reason, s1\<lparr>calls := calls s @ [AccessTokenCall]\<rparr>)
         | Inr tok \<Rightarrow>
             (case ticketReply w tok of
                Inl reason \<Rightarrow>
                  (Inl reason, s1\<lparr>calls := calls s @ [AccessTokenCall, TicketCall tok]\<rparr>)
              | Inr ticket \<Rightarrow>
                  (case updateAccessTokenOrTicketGlobally (now w) tok ticket
                          (s1\<lparr>calls := calls s @ [AccessTokenCall, TicketCall tok]\<rparr>) of
                     (g, s4) \<Rightarrow> (Inr g, s4))))"
  using assms
  by (auto simp: getNewTokenAndTicket_def record_call_def Let_def split: sum.splits)

lemma getNewTokenAndTicket_limit:
  assumes "refreshedTimes s \<ge> 5"
  shows "getNewTokenAndTicket w False s =
     (Inl (Error ''maximum manual refresh threshold reached!''),
      s\<lparr>refreshedTimes := refreshedTimes s + 1\<rparr>)"
  using assms by (simp add: getNewTokenAndTicket_def)

lemma updateAccessTokenOrTicketGlobally_frame:
  "refreshedTimes (snd (updateAccessTokenOrTicketGlobally t tok ticket s)) = refreshedTimes s"
  "calls (snd (updateAccessTokenOrTicketGlobally t tok ticket s)) = calls s"
  "st_global (snd (updateAccessTokenOrTicketGlobally t tok ticket s))
     = Some (fst (updateAccessTokenOrTicketGlobally t tok ticket s))"
  by (simp_all add: updateAccessTokenOrTicketGlobally_def store_updateGlobalToken_def Let_def)

lemma refreshedTimes_getNewTokenAndTicket:
  "refreshedTimes (snd (getNewTokenAndTicket w force s))
     = (if force then refreshedTimes s else refreshedTimes s + 1)"
  by (auto simp: getNewTokenAndTicket_def record_call_def Let_def
      updateAccessTokenOrTicketGlobally_def store_updateGlobalToken_def
      split: sum.splits)

lemma token_calls_getNewTokenAndTicket:
  assumes "force \<or> refreshedTimes s < 5"
  shows "token_calls (snd (getNewTokenAndTicket w force s)) = token_calls s + 1"
  using assms
  by (auto simp: getNewTokenAndTicket_def record_call_def Let_def token_calls_def
      updateAccessTokenOrTicketGlobally_def store_updateGlobalToken_def
      split: sum.splits)

lemma refreshedTimes_refresh_sequence:
  "refreshedTimes (refresh_sequence cs s)
     = refreshedTimes s + length (filter (\<lambda>c. \<not> snd c) cs)"
  by (induction cs s rule: refresh_sequence.induct)
     (simp_all add: refreshedTimes_getNewTokenAndTicket)

lemma token_calls_refresh_sequence:
  "refreshedTimes s + length (filter (\<lambda>c. \<not> snd c) cs) \<le> 5 \<Longrightarrow>
   token_calls (refresh_sequence cs s) = token_calls s + length cs"
proof (induction cs s rule: refresh_sequence.induct)
  case (1 s)
  then show ?case by simp
next
  case (2 w force cs s)
  have step: "token_calls (snd (getNewTokenAndTicket w force s)) = token_calls s + 1"
    using "2.prems" by (intro token_calls_getNewTokenAndTicket) (auto split: if_splits)
  have "refreshedTimes (snd (getNewTokenAndTicket w force s))
          + length (filter (\<lambda>c. \<not> snd c) cs) \<le> 5"
    using "2.prems" by (simp add: refreshedTimes_getNewTokenAndTicket split: if_splits)
  from "2.IH" [OF this] step show ?case by simp
qed

text \<open>
  C3. Start from a counter at 0 (the constructor, or the timer, has just set it) and let
  any calls of \<open>getNewTokenAndTicket\<close> follow one another, five of them manual
  (\<open>force\<close> not set), the others forced. The next manual call, the sixth, is rejected
  with the error \<open>maximum manual refresh threshold reached!\<close> and changes nothing but the
  counter: no upstream call is made. Every call before it reached the access-token
  endpoint. The timer resets the counter to 0, and its interval is two hours.
\<close>

theorem manual_refresh_limit:
  assumes "refreshedTimes s = 0" and "length (filter (\<lambda>c. \<not> snd c) cs) = 5"
  shows "getNewTokenAndTicket w False (refresh_sequence cs s)
           = (Inl (Error ''maximum manual refresh threshold reached!''),
              (refresh_sequence cs s)\<lparr>refreshedTimes := 6\<rparr>) \<and>
         calls (snd (getNewTokenAndTicket w False (refresh_sequence cs s)))
           = calls (refresh_sequence cs s) \<and>
         token_calls (refresh_sequence cs s) = token_calls s + length cs \<and>
         refreshedTimes (counter_timer_fires (snd (getNewTokenAndTicket w False (refresh_sequence cs s)))) = 0 \<and>
         COUNTER_RESET_INTERVAL = 2 * 60 * 60 * 1000"
proof -
  have five: "refreshedTimes (refresh_sequence cs s) = 5"
    using assms by (simp add: refreshedTimes_refresh_sequence)
  then have sixth: "getNewTokenAndTicket w False (refresh_sequence cs s)
           = (Inl (Error ''maximum manual refresh threshold reached!''),
              (refresh_sequence cs s)\<lparr>refreshedTimes := 6\<rparr>)"
    by (simp add: getNewTokenAndTicket_limit)
  have passed: "token_calls (refresh_sequence cs s) = token_calls s + length cs"
    using assms by (intro token_calls_refresh_sequence) simp
  show ?thesis
    using sixth passed by (simp add: counter_timer_fires_def COUNTER_RESET_INTERVAL_def)
qed

theorem manual_refresh_limit_witness:
  "refreshedTimes initial_state = 0 \<and>
   length (filter (\<lambda>c. \<not> snd c)
     [(online, False), (offline, False), (online, True), (online, False), (online, False),
      (offline, False)]) = 5 \<and>
   getNewTokenAndTicket online False
     (refresh_sequence
        [(online, False), (offline, False), (online, True), (online, False), (online, False),
         (offline, False)] initial_state)
     = (Inl (Error ''maximum manual refresh threshold reached!''),
        (refresh_sequence
           [(online, False), (offline, False), (online, True), (online, False), (online, False),
            (offline, False)] initial_state)\<lparr>refreshedTimes := 6\<rparr>) \<and>
   token_calls (refresh_sequence
        [(online, False), (offline, False), (online, True), (online, False), (online, False),
         (offline, False)] initial_state) = 6"
proof -
  have h1: "refreshedTimes initial_state = 0"
    by (simp add: initial_state_def)
  have h2: "length (filter (\<lambda>c. \<not> snd c)
     [(online, False), (offline, False), (online, True), (online, False), (online, False),
      (offline, False)]) = 5"
    by simp
  have tc: "token_calls initial_state = 0"
    by (simp add: initial_state_def token_calls_def)
  from manual_refresh_limit [OF h1 h2, of online] tc
  have "getNewTokenAndTicket online False
     (refresh_sequence
        [(online, False), (offline, False), (online, True), (online, False), (online, False),
         (offline, False)] initial_state)
     = (Inl (Error ''maximum manual refresh threshold reached!''),
        (refresh_sequence
           [(online, False), (offline, False), (online, True), (online, False), (online, False),
            (offline, False)] initial_state)\<lparr>refreshedTimes := 6\<rparr>) \<and>
   token_calls (refresh_sequence
        [(online, False), (offline, False), (online, True), (online, False), (online, False),
         (offline, False)] initial_state) = 6"
    by (simp del: refresh_sequence.simps)
  with h1 h2 show ?thesis by blast
qed

lemma prepareNewSignature_stale:
  assumes "st_global s = None \<or>
           (\<exists>g. st_global s = Some g \<and>
                (\<not> truthy (g_accessToken g) \<or> isTokenExpired (now w) (g_modifyDate g)))"
  shows "prepareNewSignature w s = getNewTokenAndTicket w True s"
  using assms by (auto simp: prepareNewSignature_def)

lemma getNewTokenAndTicket_forced:
  "getNewTokenAndTicket w True s =
     (case accessTokenReply w of
        Inl reason \<Rightarrow> (Inl reason, s\<lparr>calls := calls s @ [AccessTokenCall]\<rparr>)
      | Inr tok \<Rightarrow>
          (case ticketReply w tok of
             Inl reason \<Rightarrow> (Inl reason, s\<lparr>calls := calls s @ [AccessTokenCall, TicketCall tok]\<rparr>)
           | Inr ticket \<Rightarrow>
               (case updateAccessTokenOrTicketGlobally (now w) tok ticket
                       (s\<lparr>calls := calls s @ [AccessTokenCall, TicketCall tok]\<rparr>) of
                  (g, s4) \<Rightarrow> (Inr g, s4))))"
  by (simp add: getNewTokenAndTicket_def record_call_def Let_def split: sum.splits)

lemma updateAccessTokenOrTicketGlobally_result:
  "g_modifyDate (fst (updateAccessTokenOrTicketGlobally t tok ticket s)) = Some t"
  "truthy tok \<Longrightarrow> g_accessToken (fst (updateAccessTokenOrTicketGlobally t tok ticket s)) = tok"
  "truthy ticket \<Longrightarrow> g_jsapi_ticket (fst (updateAccessTokenOrTicketGlobally t tok ticket s)) = ticket"
  by (cases tok; cases ticket;
      simp add: updateAccessTokenOrTicketGlobally_def store_updateGlobalToken_def Let_def
        assign_global_def pick_def)+

text \<open>
  C2, as the code has it. A cached record is expired exactly when
  \<open>now - modifyDate > 119 * 60 * 1000\<close>, so it is valid while
  \<open>now - modifyDate \<le> 1h59m\<close>. \<open>prepareNewSignature\<close> returns a cached record that has
  an access token and is not expired, and leaves the state as it is (no upstream call).
  When the record is missing, has no access token or is expired, it makes one
  access-token call; if that is rejected it stops there; otherwise it makes one ticket
  call with the token received; if that is rejected it stops; otherwise it stores the
  time of the update, and the token and the ticket when they are non-empty strings
  (\<open>token && ...\<close>, \<open>ticket && ...\<close>), in the global record and returns that record.
\<close>

theorem prepareNewSignature_policy:
  "(isTokenExpired t (Some m) \<longleftrightarrow> t - m > 119 * 60 * 1000) \<and>
   (st_global s = Some g \<and> truthy (g_accessToken g) \<and>
    \<not> isTokenExpired (now w) (g_modifyDate g) \<longrightarrow>
      prepareNewSignature w s = (Inr g, s)) \<and>
   (st_global s = None \<or>
    (\<exists>g. st_global s = Some g \<and>
         (\<not> truthy (g_accessToken g) \<or> isTokenExpired (now w) (g_modifyDate g))) \<longrightarrow>
      (case accessTokenReply w of
         Inl reason \<Rightarrow>
           prepareNewSignature w s = (Inl reason, s\<lparr>calls := calls s @ [AccessTokenCall]\<rparr>)
       | Inr tok \<Rightarrow>
           (case ticketReply w tok of
              Inl reason \<Rightarrow>
                prepareNewSignature w s =
                  (Inl reason, s\<lparr>calls := calls s @ [AccessTokenCall, TicketCall tok]\<rparr>)
            | Inr ticket \<Rightarrow>
                calls (snd (prepareNewSignature w s)) = calls s @ [AccessTokenCall, TicketCall tok] \<and>
                (\<exists>g'. fst (prepareNewSignature w s) = Inr g' \<and>
                      st_global (snd (prepareNewSignature w s)) = Some g' \<and>
                      g_modifyDate g' = Some (now w) \<and>
                      (truthy tok \<longrightarrow> g_accessToken g' = tok) \<and>
                      (truthy ticket \<longrightarrow> g_jsapi_ticket g' = ticket)))))"
proof (intro conjI impI)
  show "isTokenExpired t (Some m) \<longleftrightarrow> t - m > 119 * 60 * 1000"
    by (simp add: isTokenExpired_def REFRESH_INTERVAL_def)
  show "prepareNewSignature w s = (Inr g, s)"
    if "st_global s = Some g \<and> truthy (g_accessToken g) \<and>
        \<not> isTokenExpired (now w) (g_modifyDate g)"
    using that by (simp add: prepareNewSignature_def)
next
  assume stale: "st_global s = None \<or>
    (\<exists>g. st_global s = Some g \<and>
         (\<not> truthy (g_accessToken g) \<or> isTokenExpired (now w) (g_modifyDate g)))"
  have eq: "prepareNewSignature w s = getNewTokenAndTicket w True s"
    using stale by (rule prepareNewSignature_stale)
  show "case accessTokenReply w of
         Inl reason \<Rightarrow>
           prepareNewSignature w s = (Inl reason, s\<lparr>calls := calls s @ [AccessTokenCall]\<rparr>)
       | Inr tok \<Rightarrow>
           (case ticketReply w tok of
              Inl reason \<Rightarrow>
                prepareNewSignature w s =
                  (Inl reason, s\<lparr>calls := calls s @ [AccessTokenCall, TicketCall tok]\<rparr>)
            | Inr ticket \<Rightarrow>
                calls (snd (prepareNewSignature w s)) = calls s @ [AccessTokenCall, TicketCall tok] \<and>
                (\<exists>g'. fst (prepareNewSignature w s) = Inr g' \<and>
                      st_global (snd (prepareNewSignature w s)) = Some g' \<and>
                      g_modifyDate g' = Some (now w) \<and>
                      (truthy tok \<longrightarrow> g_accessToken g' = tok) \<and>
                      (truthy ticket \<longrightarrow> g_jsapi_ticket g' = ticket)))"
  proof (cases "accessTokenReply w")
    case (Inl reason)
    then show ?thesis by (simp add: eq getNewTokenAndTicket_forced)
  next
    case tokR: (Inr tok)
    show ?thesis
    proof (cases "ticketReply w tok")
      case (Inl reason)
      with tokR show ?thesis by (simp add: eq getNewTokenAndTicket_forced)
    next
      case tickR: (Inr ticket)
      define s3 where "s3 = s\<lparr>calls := calls s @ [AccessTokenCall, TicketCall tok]\<rparr>"
      define r where "r = updateAccessTokenOrTicketGlobally (now w) tok ticket s3"
      have res: "prepareNewSignature w s = (Inr (fst r), snd r)"
        using tokR tickR
        by (simp add: eq getNewTokenAndTicket_forced r_def s3_def split: prod.splits)
      have c: "calls (snd r) = calls s @ [AccessTokenCall, TicketCall tok]"
        by (simp add: r_def updateAccessTokenOrTicketGlobally_frame s3_def)
      have g: "st_global (snd r) = Some (fst r)"
        by (simp add: r_def updateAccessTokenOrTicketGlobally_frame)
      have m: "g_modifyDate (fst r) = Some (now w)"
        by (simp add: r_def updateAccessTokenOrTicketGlobally_result)
      have a: "truthy tok \<longrightarrow> g_accessToken (fst r) = tok"
        by (simp add: r_def updateAccessTokenOrTicketGlobally_result)
      have k: "truthy ticket \<longrightarrow> g_jsapi_ticket (fst r) = ticket"
        by (simp add: r_def updateAccessTokenOrTicketGlobally_result)
      from c g m a k show ?thesis
        by (simp add: tokR tickR res)
    qed
  qed
qed

theorem prepareNewSignature_policy_witness:
  "(st_global (initial_state\<lparr>st_global :=
        Some \<lparr>g_accessToken = Some ''TOKEN'', g_jsapi_ticket = Some ''TICKET'',
              g_modifyDate = Some 1000\<rparr>\<rparr>)
      = Some \<lparr>g_accessToken = Some ''TOKEN'', g_jsapi_ticket = Some ''TICKET'',
              g_modifyDate = Some 1000\<rparr> \<and>
    truthy (g_accessToken \<lparr>g_accessToken = Some ''TOKEN'', g_jsapi_ticket = Some ''TICKET'',
              g_modifyDate = Some 1000\<rparr>) \<and>
    \<not> isTokenExpired (now (offline\<lparr>now := 2000\<rparr>))
        (g_modifyDate \<lparr>g_accessToken = Some ''TOKEN'', g_jsapi_ticket = Some ''TICKET'',
              g_modifyDate = Some 1000\<rparr>) \<and>
    prepareNewSignature (offline\<lparr>now := 2000\<rparr>)
      (initial_state\<lparr>st_global :=
        Some \<lparr>g_accessToken = Some ''TOKEN'', g_jsapi_ticket = Some ''TICKET'',
              g_modifyDate = Some 1000\<rparr>\<rparr>)
      = (Inr \<lparr>g_accessToken = Some ''TOKEN'', g_jsapi_ticket = Some ''TICKET'',
              g_modifyDate = Some 1000\<rparr>,
         initial_state\<lparr>st_global :=
           Some \<lparr>g_accessToken = Some ''TOKEN'', g_jsapi_ticket = Some ''TICKET'',
                 g_modifyDate = Some 1000\<rparr>\<rparr>)) \<and>
   (isTokenExpired (now (online\<lparr>now := 7141001\<rparr>)) (Some 1000) \<and>
    calls (snd (prepareNewSignature (online\<lparr>now := 7141001\<rparr>)
      (initial_state\<lparr>st_global :=
        Some \<lparr>g_accessToken = Some ''OLD'', g_jsapi_ticket = Some ''OLD'',
              g_modifyDate = Some 1000\<rparr>\<rparr>)))
      = [AccessTokenCall, TicketCall (Some ''TOKEN'')])"
proof -
  let ?g = "\<lparr>g_accessToken = Some ''TOKEN'', g_jsapi_ticket = Some ''TICKET'',
              g_modifyDate = Some 1000\<rparr>"
  let ?old = "\<lparr>g_accessToken = Some ''OLD'', g_jsapi_ticket = Some ''OLD'',
              g_modifyDate = Some 1000\<rparr>"
  have v: "st_global (initial_state\<lparr>st_global := Some ?g\<rparr>) = Some ?g \<and>
      truthy (g_accessToken ?g) \<and>
      \<not> isTokenExpired (now (offline\<lparr>now := 2000\<rparr>)) (g_modifyDate ?g)"
    by (simp add: isTokenExpired_def REFRESH_INTERVAL_def)
  have e: "isTokenExpired (now (online\<lparr>now := 7141001\<rparr>)) (Some 1000)"
    by (simp add: isTokenExpired_def REFRESH_INTERVAL_def)
  then have stale: "st_global (initial_state\<lparr>st_global := Some ?old\<rparr>) = None \<or>
      (\<exists>g. st_global (initial_state\<lparr>st_global := Some ?old\<rparr>) = Some g \<and>
           (\<not> truthy (g_accessToken g) \<or>
            isTokenExpired (now (online\<lparr>now := 7141001\<rparr>)) (g_modifyDate g)))"
    by simp
  have r: "accessTokenReply online = Inr (Some ''TOKEN'')"
          "ticketReply online (Some ''TOKEN'') = Inr (Some ''TICKET'')"
          "calls initial_state = []"
    by (simp_all add: online_def initial_state_def)
  from prepareNewSignature_policy
         [where s = "initial_state\<lparr>st_global := Some ?g\<rparr>" and g = ?g
            and w = "offline\<lparr>now := 2000\<rparr>"] v
  have c1: "prepareNewSignature (offline\<lparr>now := 2000\<rparr>) (initial_state\<lparr>st_global := Some ?g\<rparr>)
      = (Inr ?g, initial_state\<lparr>st_global := Some ?g\<rparr>)"
    by blast
  from prepareNewSignature_policy
         [where s = "initial_state\<lparr>st_global := Some ?old\<rparr>"
            and w = "online\<lparr>now := 7141001\<rparr>"] stale
  have c2: "calls (snd (prepareNewSignature (online\<lparr>now := 7141001\<rparr>)
      (initial_state\<lparr>st_global := Some ?old\<rparr>))) = [AccessTokenCall, TicketCall (Some ''TOKEN'')]"
    by (simp add: r e)
  from v e c1 c2 show ?thesis by blast
qed

text \<open>
  C2, as the spec words it (valid iff \<open>now - modifyDate < 1h59m\<close>), fails at the boundary:
  a record modified exactly 1h59m ago is still served from the cache, with no upstream
  call, although \<open>now - modifyDate < 1h59m\<close> is false.
\<close>

theorem token_valid_at_exact_interval:
  "\<not> (now (offline\<lparr>now := 7140000\<rparr>) - 0 < 119 * 60 * 1000) \<and>
   \<not> isTokenExpired (now (offline\<lparr>now := 7140000\<rparr>)) (Some 0) \<and>
   prepareNewSignature (offline\<lparr>now := 7140000\<rparr>)
     (initial_state\<lparr>st_global :=
        Some \<lparr>g_accessToken = Some ''TOKEN'', g_jsapi_ticket = Some ''TICKET'',
              g_modifyDate = Some 0\<rparr>\<rparr>)
     = (Inr \<lparr>g_accessToken = Some ''TOKEN'', g_jsapi_ticket = Some ''TICKET'',
              g_modifyDate = Some 0\<rparr>,
        initial_state\<lparr>st_global :=
          Some \<lparr>g_accessToken = Some ''TOKEN'', g_jsapi_ticket = Some ''TICKET'',
                g_modifyDate = Some 0\<rparr>\<rparr>)"
  by (simp add: prepareNewSignature_def isTokenExpired_def REFRESH_INTERVAL_def offline_def)

section \<open>Cached and new signatures\<close>






section \<open>Saving and updating signatures\<close>

lemma saveSignature_existing:
  "store_isSignatureExisting (url info) s \<Longrightarrow>
   saveSignature w info s =
     updateSignature w (url info) (info\<lparr>createDate := Some (now w), modifyDate := Some (now w)\<rparr>) s"
  by (simp add: saveSignature_def Let_def)

lemma saveSignature_new:
  "\<not> store_isSignatureExisting (url info) s \<Longrightarrow> truthy (signatureName info) \<Longrightarrow>
   saveSignature w info s =
     (Inr (info\<lparr>createDate := Some (now w), modifyDate := Some (now w)\<rparr>),
      s\<lparr>st_urls := (st_urls s)(property_key (signatureName info) \<mapsto>
             info\<lparr>createDate := Some (now w), modifyDate := Some (now w)\<rparr>)\<rparr>)"
  by (simp add: saveSignature_def Let_def store_saveSignature_def)

text \<open>The TypeScript \<open>updateSignature\<close> keeps \<open>createDate\<close> and \<open>signatureName\<close> of the
  stored record; \<open>url\<close> is taken from the payload when the payload has one.\<close>

lemma updateSignature_keeps:
  assumes "st_urls s (normalizeUrl u) = Some r"
    and "updateSignature w (Some u) info s = (Inr r', s')"
  shows "createDate r' = createDate r" and "signatureName r' = signatureName r"
    and "url r' = pick (url r) (url info)"
    and "st_urls s' (normalizeUrl u) = Some r'"
proof -
  from assms(2)
  have r': "r' = assign_sig r (info\<lparr>modifyDate := Some (now w), createDate := None,
                                     signatureName := None\<rparr>)"
    and s': "s' = s\<lparr>st_urls := (st_urls s)(normalizeUrl u \<mapsto> r')\<rparr>"
    by (auto simp: updateSignature_def store_updateSignature_def Let_def assms(1))
  show "createDate r' = createDate r" "signatureName r' = signatureName r"
    "url r' = pick (url r) (url info)"
    by (simp_all add: r' assign_sig_def pick_def)
  show "st_urls s' (normalizeUrl u) = Some r'"
    by (simp add: s')
qed

text \<open>The JavaScript \<open>updateSignatureByUrl\<close> keeps \<open>url\<close> and \<open>signatureName\<close> of the stored
  record; \<open>createDate\<close> is taken from the payload when the payload has one.\<close>

lemma updateSignatureByUrl_keeps:
  assumes "st_urls s (normalizeUrl_js u) = Some r"
    and "updateSignatureByUrl w (Some u) info s = (Inr r', s')"
  shows "url r' = url r" and "signatureName r' = signatureName r"
    and "createDate r' = pick (createDate r) (createDate info)"
    and "st_urls s' (normalizeUrl_js u) = Some r'"
proof -
  from assms(2)
  have r': "r' = assign_sig r (info\<lparr>modifyDate := Some (now w), url := None,
                                     signatureName := None\<rparr>)"
    and s': "s' = s\<lparr>st_urls := (st_urls s)(normalizeUrl_js u \<mapsto> r')\<rparr>"
    by (auto simp: updateSignatureByUrl_def store_updateSignature_def Let_def assms(1))
  show "url r' = url r" "signatureName r' = signatureName r"
    "createDate r' = pick (createDate r) (createDate info)"
    by (simp_all add: r' assign_sig_def pick_def)
  show "st_urls s' (normalizeUrl_js u) = Some r'"
    by (simp add: s')
qed

text \<open>
  C9. An update should leave \<open>createDate\<close>, \<open>url\<close> and \<open>signatureName\<close> of the stored
  record as they are. Each class protects two of the three fields. In the JavaScript
  class \<open>saveNewSignature\<close> stamps \<open>createDate\<close> on the payload and
  \<open>updateSignatureByUrl\<close> does not remove it: saving a signature for a URL whose record
  was created at time 1000 sets \<open>createDate\<close> to the time of the update, 5000. In the
  TypeScript class \<open>updateSignature\<close> does not remove \<open>url\<close> from the payload: an update
  of the record for \<open>http://example.com/page\<close> with a payload whose \<open>url\<close> is
  \<open>http://example.com/other\<close> renames the stored \<open>url\<close>.
\<close>

theorem update_overwrites_protected_fields:
  "createDate example_record = Some 1000 \<and>
   map_option createDate
     (st_urls (snd (saveNewSignature (offline\<lparr>now := 5000\<rparr>)
                      (example_record\<lparr>createDate := None, modifyDate := None\<rparr>)
                      (initial_state\<lparr>st_urls := [''http://example.com/page'' \<mapsto> example_record]\<rparr>)))
        ''http://example.com/page'') = Some (Some 5000) \<and>
   url example_record = Some ''http://example.com/page'' \<and>
   map_option url
     (st_urls (snd (updateSignature (offline\<lparr>now := 5000\<rparr>) (Some ''http://example.com/page'')
                      (example_record\<lparr>url := Some ''http://example.com/other''\<rparr>)
                      (initial_state\<lparr>st_urls := [''http://example.com/page'' \<mapsto> example_record]\<rparr>)))
        ''http://example.com/page'') = Some (Some ''http://example.com/other'')"
proof -
  have n: "normalizeUrl ''http://example.com/page'' = ''http://example.com/page''"
          "normalizeUrl_js ''http://example.com/page'' = ''http://example.com/page''"
    by (simp_all add: normalizeUrl_def normalizeUrl_js_def indexOf_def substring0_def
        url_hash_def)
  show ?thesis
    by (simp add: saveNewSignature_def updateSignatureByUrl_def updateSignature_def
        store_isSignatureExisting_def store_updateSignature_def property_key_def n Let_def
        example_record_def assign_sig_def pick_def)
qed

section \<open>OAuth tokens\<close>

lemma calls_refreshAccessToken:
  "calls (snd (refreshAccessToken w k tokenInfo s))
     = calls s @ [RefreshTokenCall (refresh_token tokenInfo)]"
  by (simp add: refreshAccessToken_def record_call_def Let_def store_updateOAuthAccessToken_def
      split: sum.splits)

lemma getAccessToken_expired_cached:
  assumes "\<not> truthy code" and "store_getOAuthAccessToken k s = Some tokenInfo"
    and "isAccessTokenExpired (now w) tokenInfo"
  shows "getAccessToken w code k s = refreshAccessToken w k tokenInfo s"
  using assms by (simp add: getAccessToken_def)

lemma getAccessTokenRemotely_calls:
  "calls (snd (getAccessTokenRemotely w c k s)) = calls s @ [CodeExchangeCall c]"
  by (simp add: getAccessTokenRemotely_def record_call_def Let_def store_saveOAuthAccessToken_def
      split: sum.splits)

lemma getAccessTokenRemotely_success:
  assumes "codeReply w c = Inr reply"
  shows "getAccessTokenRemotely w c k s =
     (Inr ((setAccessTokenExpirationTime (now w) reply)
             \<lparr>key := or_else k (openid reply), o_createDate := Some (now w),
              o_modifyDate := Some (now w)\<rparr>),
      s\<lparr>calls := calls s @ [CodeExchangeCall c],
        st_oauth := (st_oauth s)(property_key (or_else k (openid reply)) \<mapsto>
          (setAccessTokenExpirationTime (now w) reply)
             \<lparr>key := or_else k (openid reply), o_createDate := Some (now w),
              o_modifyDate := Some (now w)\<rparr>)\<rparr>)"
proof -
  have o: "openid (setAccessTokenExpirationTime (now w) reply) = openid reply"
    by (simp add: setAccessTokenExpirationTime_def split: option.splits)
  show ?thesis
    using assms
    by (simp add: getAccessTokenRemotely_def record_call_def Let_def
        store_saveOAuthAccessToken_def o)
qed

text \<open>
  C7, as the code has it. For a record with a non-zero \<open>expires_in\<close>,
  \<open>setAccessTokenExpirationTime\<close> at time \<open>issueTime\<close> sets \<open>expirationTime\<close> to
  \<open>issueTime + (expires_in - 60) * 1000\<close>; a record whose \<open>expires_in\<close> is 0 is returned
  as it is, like one without the field (the guard \<open>!tokenInfo.expires_in\<close>). A record
  with an \<open>expirationTime\<close> is expired at clock reading \<open>t\<close> exactly when the
  \<open>expirationTime\<close> is 0 or \<open>t\<close> has reached it, so it is valid exactly while
  \<open>expirationTime\<close> is not 0 and \<open>t < expirationTime\<close>; at a clock reading not before
  the epoch that is: exactly while \<open>t < expirationTime\<close>.
\<close>

theorem oauth_expirationTime_margin:
  "(expires_in tokenInfo = Some e \<and> e \<noteq> 0 \<longrightarrow>
      expirationTime (setAccessTokenExpirationTime issueTime tokenInfo)
        = Some (issueTime + (e - 60) * 1000) \<and>
      (isAccessTokenExpired t (setAccessTokenExpirationTime issueTime tokenInfo)
        \<longleftrightarrow> issueTime + (e - 60) * 1000 = 0 \<or> t \<ge> issueTime + (e - 60) * 1000) \<and>
      (0 \<le> t \<longrightarrow>
         (isAccessTokenExpired t (setAccessTokenExpirationTime issueTime tokenInfo)
           \<longleftrightarrow> t \<ge> issueTime + (e - 60) * 1000))) \<and>
   (expires_in tokenInfo = Some 0 \<longrightarrow>
      setAccessTokenExpirationTime issueTime tokenInfo = tokenInfo) \<and>
   (\<forall>r x. expirationTime r = Some x \<longrightarrow>
      (\<not> isAccessTokenExpired t r \<longleftrightarrow> x \<noteq> 0 \<and> t < x) \<and>
      (0 \<le> t \<longrightarrow> (\<not> isAccessTokenExpired t r \<longleftrightarrow> t < x)))"
  by (auto simp: setAccessTokenExpirationTime_def isAccessTokenExpired_def)

theorem oauth_expirationTime_margin_witness:
  "expires_in (empty_oauth\<lparr>expires_in := Some 7200\<rparr>) = Some 7200 \<and> (7200::int) \<noteq> 0 \<and>
   (0::int) \<le> 8139999 \<and>
   expirationTime (setAccessTokenExpirationTime 1000000 (empty_oauth\<lparr>expires_in := Some 7200\<rparr>))
     = Some 8140000 \<and>
   \<not> isAccessTokenExpired 8139999
       (setAccessTokenExpirationTime 1000000 (empty_oauth\<lparr>expires_in := Some 7200\<rparr>)) \<and>
   isAccessTokenExpired 8140000
       (setAccessTokenExpirationTime 1000000 (empty_oauth\<lparr>expires_in := Some 7200\<rparr>)) \<and>
   expires_in (empty_oauth\<lparr>expires_in := Some 0\<rparr>) = Some 0 \<and>
   setAccessTokenExpirationTime 1000000 (empty_oauth\<lparr>expires_in := Some 0\<rparr>)
     = empty_oauth\<lparr>expires_in := Some 0\<rparr> \<and>
   expirationTime example_token = Some 5000 \<and>
   \<not> isAccessTokenExpired 4999 example_token \<and> isAccessTokenExpired 5000 example_token"
proof -
  have h: "expires_in (empty_oauth\<lparr>expires_in := Some 7200\<rparr>) = Some 7200 \<and> (7200::int) \<noteq> 0"
          "(0::int) \<le> 8139999" "(0::int) \<le> 8140000"
          "expires_in (empty_oauth\<lparr>expires_in := Some 0\<rparr>) = Some 0"
    by simp_all
  from oauth_expirationTime_margin
         [where tokenInfo = "empty_oauth\<lparr>expires_in := Some 7200\<rparr>" and e = 7200
            and t = 8139999 and issueTime = 1000000] h
  have a: "expirationTime
             (setAccessTokenExpirationTime 1000000 (empty_oauth\<lparr>expires_in := Some 7200\<rparr>))
             = Some 8140000"
    and b: "\<not> isAccessTokenExpired 8139999
             (setAccessTokenExpirationTime 1000000 (empty_oauth\<lparr>expires_in := Some 7200\<rparr>))"
    by simp_all
  from oauth_expirationTime_margin
         [where tokenInfo = "empty_oauth\<lparr>expires_in := Some 7200\<rparr>" and e = 7200
            and t = 8140000 and issueTime = 1000000] h
  have c: "isAccessTokenExpired 8140000
             (setAccessTokenExpirationTime 1000000 (empty_oauth\<lparr>expires_in := Some 7200\<rparr>))"
    by simp
  from oauth_expirationTime_margin
         [where tokenInfo = "empty_oauth\<lparr>expires_in := Some 0\<rparr>" and issueTime = 1000000] h
  have d: "setAccessTokenExpirationTime 1000000 (empty_oauth\<lparr>expires_in := Some 0\<rparr>)
             = empty_oauth\<lparr>expires_in := Some 0\<rparr>"
    by blast
  have x: "expirationTime example_token = Some 5000"
    by (simp add: example_token_def)
  from oauth_expirationTime_margin [where t = 4999] x
  have e: "\<not> isAccessTokenExpired 4999 example_token"
    by simp
  from oauth_expirationTime_margin [where t = 5000] x
  have f: "isAccessTokenExpired 5000 example_token"
    by (metis less_irrefl)
  from h a b c d x e f show ?thesis by blast
qed

text \<open>
  C7, as the spec words it (every record with an \<open>expires_in\<close> value gets
  \<open>issueTime + (expires_in - 60) * 1000\<close>), fails for the value 0: the record comes back
  without an \<open>expirationTime\<close>, where the formula gives \<open>issueTime - 60000\<close>.
\<close>

theorem oauth_expires_in_zero:
  "expires_in (empty_oauth\<lparr>expires_in := Some 0\<rparr>) = Some 0 \<and>
   expirationTime (setAccessTokenExpirationTime 1000000 (empty_oauth\<lparr>expires_in := Some 0\<rparr>))
     = None \<and>
   expirationTime (setAccessTokenExpirationTime 1000000 (empty_oauth\<lparr>expires_in := Some 0\<rparr>))
     \<noteq> Some (1000000 + (0 - 60) * 1000)"
  by (simp add: setAccessTokenExpirationTime_def empty_oauth_def)

text \<open>
  C10. A record without \<open>expirationTime\<close> is expired at every clock reading;
  \<open>setAccessTokenExpirationTime\<close> leaves a reply without \<open>expires_in\<close> as it is; and
  \<open>getAccessToken\<close> without a code, finding such a record in the cache, does what
  \<open>refreshAccessToken\<close> does and never returns the cached record with the state untouched.
\<close>

theorem oauth_missing_expirationTime:
  "(expirationTime tokenInfo = None \<longrightarrow> isAccessTokenExpired t tokenInfo) \<and>
   (expires_in reply = None \<longrightarrow> setAccessTokenExpirationTime t reply = reply) \<and>
   (\<not> truthy code \<and> store_getOAuthAccessToken k s = Some tokenInfo \<and>
    expirationTime tokenInfo = None \<longrightarrow>
      getAccessToken w code k s = refreshAccessToken w k tokenInfo s \<and>
      getAccessToken w code k s \<noteq> (Inr tokenInfo, s))"
proof (intro conjI impI)
  show "isAccessTokenExpired t tokenInfo" if "expirationTime tokenInfo = None"
    using that by (simp add: isAccessTokenExpired_def)
  show "setAccessTokenExpirationTime t reply = reply" if "expires_in reply = None"
    using that by (simp add: setAccessTokenExpirationTime_def)
next
  assume a: "\<not> truthy code \<and> store_getOAuthAccessToken k s = Some tokenInfo \<and>
    expirationTime tokenInfo = None"
  then have ex: "isAccessTokenExpired (now w) tokenInfo"
    by (simp add: isAccessTokenExpired_def)
  with a show eq: "getAccessToken w code k s = refreshAccessToken w k tokenInfo s"
    by (simp add: getAccessToken_expired_cached)
  show "getAccessToken w code k s \<noteq> (Inr tokenInfo, s)"
  proof
    assume "getAccessToken w code k s = (Inr tokenInfo, s)"
    with eq have "refreshAccessToken w k tokenInfo s = (Inr tokenInfo, s)" by simp
    then have "snd (refreshAccessToken w k tokenInfo s) = s" by simp
    then have "calls (snd (refreshAccessToken w k tokenInfo s)) = calls s" by simp
    then show False by (simp add: calls_refreshAccessToken)
  qed
qed

theorem oauth_missing_expirationTime_witness:
  "expirationTime (empty_oauth\<lparr>refresh_token := Some ''r1''\<rparr>) = None \<and>
   expires_in (empty_oauth\<lparr>refresh_token := Some ''r1''\<rparr>) = None \<and>
   \<not> truthy None \<and>
   store_getOAuthAccessToken (Some ''user1'')
     (initial_state\<lparr>st_oauth := [''user1'' \<mapsto> empty_oauth\<lparr>refresh_token := Some ''r1''\<rparr>]\<rparr>)
     = Some (empty_oauth\<lparr>refresh_token := Some ''r1''\<rparr>) \<and>
   isAccessTokenExpired 5 (empty_oauth\<lparr>refresh_token := Some ''r1''\<rparr>) \<and>
   setAccessTokenExpirationTime 5 (empty_oauth\<lparr>refresh_token := Some ''r1''\<rparr>)
     = empty_oauth\<lparr>refresh_token := Some ''r1''\<rparr> \<and>
   getAccessToken offline None (Some ''user1'')
     (initial_state\<lparr>st_oauth := [''user1'' \<mapsto> empty_oauth\<lparr>refresh_token := Some ''r1''\<rparr>]\<rparr>)
     = refreshAccessToken offline (Some ''user1'') (empty_oauth\<lparr>refresh_token := Some ''r1''\<rparr>)
         (initial_state\<lparr>st_oauth := [''user1'' \<mapsto> empty_oauth\<lparr>refresh_token := Some ''r1''\<rparr>]\<rparr>)"
  using oauth_missing_expirationTime
    [where tokenInfo = "empty_oauth\<lparr>refresh_token := Some ''r1''\<rparr>" and t = 5
       and reply = "empty_oauth\<lparr>refresh_token := Some ''r1''\<rparr>" and code = None
       and k = "Some ''user1''" and w = offline
       and s = "initial_state\<lparr>st_oauth := [''user1'' \<mapsto> empty_oauth\<lparr>refresh_token := Some ''r1''\<rparr>]\<rparr>"]
  by (simp add: empty_oauth_def store_getOAuthAccessToken_def property_key_def initial_state_def)

text \<open>
  C6, as the code has it. \<open>getAccessToken(code, key)\<close>. With a code, the code exchange
  is called whatever the cache holds. When it is rejected, the call is rejected with the
  same reason and nothing is stored. When it answers, the reply gets \<open>key\<close>,
  \<open>createDate\<close> and \<open>modifyDate\<close>, and an \<open>expirationTime\<close> when it carries a non-zero
  \<open>expires_in\<close> (with \<open>expires_in\<close> missing or 0 its \<open>expirationTime\<close> stays as the reply
  had it); it is stored under \<open>key\<close>, or under the \<open>openid\<close> of the reply when \<open>key\<close> is
  missing or empty, and is returned. Without a code: no cached record for \<open>key\<close> gives
  the error \<open>please get new code!\<close> and leaves the state as it is; an expired cached
  record gives what \<open>refreshAccessToken(key, tokenInfo)\<close> gives; any other cached record
  is returned, the state unchanged.
\<close>

theorem getAccessToken_paths:
  "(code = Some c \<and> c \<noteq> [] \<longrightarrow>
      calls (snd (getAccessToken w code k s)) = calls s @ [CodeExchangeCall c]) \<and>
   (code = Some c \<and> c \<noteq> [] \<and> codeReply w c = Inl reason \<longrightarrow>
      getAccessToken w code k s = (Inl reason, s\<lparr>calls := calls s @ [CodeExchangeCall c]\<rparr>)) \<and>
   (code = Some c \<and> c \<noteq> [] \<and> codeReply w c = Inr reply \<longrightarrow>
      getAccessToken w code k s =
        (Inr ((setAccessTokenExpirationTime (now w) reply)
                \<lparr>key := or_else k (openid reply), o_createDate := Some (now w),
                 o_modifyDate := Some (now w)\<rparr>),
         s\<lparr>calls := calls s @ [CodeExchangeCall c],
           st_oauth := (st_oauth s)(property_key (or_else k (openid reply)) \<mapsto>
             (setAccessTokenExpirationTime (now w) reply)
                \<lparr>key := or_else k (openid reply), o_createDate := Some (now w),
                 o_modifyDate := Some (now w)\<rparr>)\<rparr>) \<and>
      (truthy k \<longrightarrow> or_else k (openid reply) = k) \<and>
      (\<not> truthy k \<longrightarrow> or_else k (openid reply) = openid reply) \<and>
      (\<forall>e. expires_in reply = Some e \<and> e \<noteq> 0 \<longrightarrow>
         expirationTime (setAccessTokenExpirationTime (now w) reply)
           = Some (now w + (e - 60) * 1000)) \<and>
      (expires_in reply = None \<or> expires_in reply = Some 0 \<longrightarrow>
         expirationTime (setAccessTokenExpirationTime (now w) reply) = expirationTime reply)) \<and>
   (\<not> truthy code \<and> store_getOAuthAccessToken k s = None \<longrightarrow>
      getAccessToken w code k s = (Inl (Error ''please get new code!''), s)) \<and>
   (\<not> truthy code \<and> store_getOAuthAccessToken k s = Some tokenInfo \<and>
    isAccessTokenExpired (now w) tokenInfo \<longrightarrow>
      getAccessToken w code k s = refreshAccessToken w k tokenInfo s) \<and>
   (\<not> truthy code \<and> store_getOAuthAccessToken k s = Some tokenInfo \<and>
    \<not> isAccessTokenExpired (now w) tokenInfo \<longrightarrow>
      getAccessToken w code k s = (Inr tokenInfo, s))"
proof (intro conjI impI allI)
  show "calls (snd (getAccessToken w code k s)) = calls s @ [CodeExchangeCall c]"
    if "code = Some c \<and> c \<noteq> []"
    using that by (simp add: getAccessToken_def getAccessTokenRemotely_calls)
  show "getAccessToken w code k s = (Inl reason, s\<lparr>calls := calls s @ [CodeExchangeCall c]\<rparr>)"
    if "code = Some c \<and> c \<noteq> [] \<and> codeReply w c = Inl reason"
    using that by (simp add: getAccessToken_def getAccessTokenRemotely_def record_call_def)
  show "getAccessToken w code k s =
        (Inr ((setAccessTokenExpirationTime (now w) reply)
                \<lparr>key := or_else k (openid reply), o_createDate := Some (now w),
                 o_modifyDate := Some (now w)\<rparr>),
         s\<lparr>calls := calls s @ [CodeExchangeCall c],
           st_oauth := (st_oauth s)(property_key (or_else k (openid reply)) \<mapsto>
             (setAccessTokenExpirationTime (now w) reply)
                \<lparr>key := or_else k (openid reply), o_createDate := Some (now w),
                 o_modifyDate := Some (now w)\<rparr>)\<rparr>)"
    if "code = Some c \<and> c \<noteq> [] \<and> codeReply w c = Inr reply"
    using that by (simp add: getAccessToken_def getAccessTokenRemotely_success)
  show "or_else k (openid reply) = k" if "truthy k"
    using that by (simp add: or_else_def)
  show "or_else k (openid reply) = openid reply" if "\<not> truthy k"
    using that by (simp add: or_else_def)
  show "expirationTime (setAccessTokenExpirationTime (now w) reply)
           = Some (now w + (e - 60) * 1000)"
    if "expires_in reply = Some e \<and> e \<noteq> 0" for e
    using that by (simp add: setAccessTokenExpirationTime_def)
  show "expirationTime (setAccessTokenExpirationTime (now w) reply) = expirationTime reply"
    if "expires_in reply = None \<or> expires_in reply = Some 0"
    using that by (auto simp: setAccessTokenExpirationTime_def)
  show "getAccessToken w code k s = (Inl (Error ''please get new code!''), s)"
    if "\<not> truthy code \<and> store_getOAuthAccessToken k s = None"
    using that by (simp add: getAccessToken_def)
  show "getAccessToken w code k s = refreshAccessToken w k tokenInfo s"
    if "\<not> truthy code \<and> store_getOAuthAccessToken k s = Some tokenInfo \<and>
        isAccessTokenExpired (now w) tokenInfo"
    using that by (simp add: getAccessToken_expired_cached)
  show "getAccessToken w code k s = (Inr tokenInfo, s)"
    if "\<not> truthy code \<and> store_getOAuthAccessToken k s = Some tokenInfo \<and>
        \<not> isAccessTokenExpired (now w) tokenInfo"
    using that by (simp add: getAccessToken_def)
qed

text \<open>
  C6, as the spec words it (the result of every code exchange gets an \<open>expirationTime\<close>),
  fails for a reply without \<open>expires_in\<close>: the record that is returned and stored under
  the \<open>openid\<close> has no \<open>expirationTime\<close>.
\<close>

theorem code_exchange_without_expires_in:
  "fst (getAccessToken online_without_expiry (Some ''CODE'') None initial_state)
     = Inr \<lparr> access_token = Some ''AT'', refresh_token = Some ''RT'', openid = Some ''OPENID'',
             expires_in = None, expirationTime = None, key = Some ''OPENID'',
             o_createDate = Some 0, o_modifyDate = Some 0 \<rparr> \<and>
   st_oauth (snd (getAccessToken online_without_expiry (Some ''CODE'') None initial_state))
       ''OPENID''
     = Some \<lparr> access_token = Some ''AT'', refresh_token = Some ''RT'', openid = Some ''OPENID'',
              expires_in = None, expirationTime = None, key = Some ''OPENID'',
              o_createDate = Some 0, o_modifyDate = Some 0 \<rparr>"
  by (simp add: getAccessToken_def getAccessTokenRemotely_def record_call_def Let_def
      store_saveOAuthAccessToken_def setAccessTokenExpirationTime_def online_without_expiry_def
      online_def empty_oauth_def or_else_def property_key_def initial_state_def)

theorem getAccessToken_paths_witness:
  "(codeReply (online\<lparr>now := 1000000\<rparr>) ''CODE''
      = Inr (empty_oauth\<lparr>access_token := Some ''AT'', refresh_token := Some ''RT'',
                         openid := Some ''OPENID'', expires_in := Some 7200\<rparr>) \<and>
    \<not> truthy None \<and>
    store_getOAuthAccessToken (Some ''OPENID'')
      (initial_state\<lparr>st_oauth := [''OPENID'' \<mapsto> example_token]\<rparr>) = Some example_token \<and>
    \<not> isAccessTokenExpired (now (online\<lparr>now := 1000\<rparr>)) example_token \<and>
    getAccessToken (online\<lparr>now := 1000000\<rparr>) (Some ''CODE'') None
      (initial_state\<lparr>st_oauth := [''OPENID'' \<mapsto> example_token]\<rparr>)
      = (Inr \<lparr> access_token = Some ''AT'', refresh_token = Some ''RT'', openid = Some ''OPENID'',
               expires_in = Some 7200, expirationTime = Some 8140000, key = Some ''OPENID'',
               o_createDate = Some 1000000, o_modifyDate = Some 1000000 \<rparr>,
         initial_state
           \<lparr>calls := [CodeExchangeCall ''CODE''],
            st_oauth := [''OPENID'' \<mapsto>
              \<lparr> access_token = Some ''AT'', refresh_token = Some ''RT'', openid = Some ''OPENID'',
                expires_in = Some 7200, expirationTime = Some 8140000, key = Some ''OPENID'',
                o_createDate = Some 1000000, o_modifyDate = Some 1000000 \<rparr>]\<rparr>)) \<and>
   (store_getOAuthAccessToken (Some ''nobody'') initial_state = None \<and>
    getAccessToken offline None (Some ''nobody'') initial_state
      = (Inl (Error ''please get new code!''), initial_state)) \<and>
   (isAccessTokenExpired (now (online\<lparr>now := 6000\<rparr>)) example_token \<and>
    getAccessToken (online\<lparr>now := 6000\<rparr>) None (Some ''OPENID'')
      (initial_state\<lparr>st_oauth := [''OPENID'' \<mapsto> example_token]\<rparr>)
      = refreshAccessToken (online\<lparr>now := 6000\<rparr>) (Some ''OPENID'') example_token
          (initial_state\<lparr>st_oauth := [''OPENID'' \<mapsto> example_token]\<rparr>)) \<and>
   getAccessToken (online\<lparr>now := 1000\<rparr>) None (Some ''OPENID'')
      (initial_state\<lparr>st_oauth := [''OPENID'' \<mapsto> example_token]\<rparr>)
      = (Inr example_token, initial_state\<lparr>st_oauth := [''OPENID'' \<mapsto> example_token]\<rparr>) \<and>
   (codeReply offline ''CODE'' = Inl (Error ''offline'') \<and>
    getAccessToken offline (Some ''CODE'') None
      (initial_state\<lparr>st_oauth := [''OPENID'' \<mapsto> example_token]\<rparr>)
      = (Inl (Error ''offline''),
         initial_state\<lparr>st_oauth := [''OPENID'' \<mapsto> example_token]\<rparr>
           \<lparr>calls := calls (initial_state\<lparr>st_oauth := [''OPENID'' \<mapsto> example_token]\<rparr>)
                      @ [CodeExchangeCall ''CODE'']\<rparr>)) \<and>
   (codeReply online_without_expiry ''CODE''
      = Inr (empty_oauth\<lparr>access_token := Some ''AT'', refresh_token := Some ''RT'',
                         openid := Some ''OPENID''\<rparr>) \<and>
    expires_in (empty_oauth\<lparr>access_token := Some ''AT'', refresh_token := Some ''RT'',
                           openid := Some ''OPENID''\<rparr>) = None \<and>
    expirationTime
      (setAccessTokenExpirationTime (now online_without_expiry)
         (empty_oauth\<lparr>access_token := Some ''AT'', refresh_token := Some ''RT'',
                      openid := Some ''OPENID''\<rparr>))
      = None)"
proof -
  let ?s = "initial_state\<lparr>st_oauth := [''OPENID'' \<mapsto> example_token]\<rparr>"
  let ?reply = "empty_oauth\<lparr>access_token := Some ''AT'', refresh_token := Some ''RT'',
                         openid := Some ''OPENID'', expires_in := Some 7200\<rparr>"
  have h1: "codeReply (online\<lparr>now := 1000000\<rparr>) ''CODE'' = Inr ?reply"
    by (simp add: online_def)
  have h2: "store_getOAuthAccessToken (Some ''OPENID'') ?s = Some example_token"
    by (simp add: store_getOAuthAccessToken_def property_key_def)
  have h3: "\<not> isAccessTokenExpired (now (online\<lparr>now := 1000\<rparr>)) example_token"
    by (simp add: isAccessTokenExpired_def example_token_def)
  have h4: "store_getOAuthAccessToken (Some ''nobody'') initial_state = None"
    by (simp add: store_getOAuthAccessToken_def property_key_def initial_state_def)
  have h5: "isAccessTokenExpired (now (online\<lparr>now := 6000\<rparr>)) example_token"
    by (simp add: isAccessTokenExpired_def example_token_def)
  have t: "\<not> truthy None" "truthy (Some ''CODE'')"
    by simp_all
  from getAccessToken_paths
         [where code = "Some ''CODE''" and c = "''CODE''" and w = "online\<lparr>now := 1000000\<rparr>"
            and reply = ?reply and k = None and s = ?s] h1
  have a: "getAccessToken (online\<lparr>now := 1000000\<rparr>) (Some ''CODE'') None ?s
      = (Inr \<lparr> access_token = Some ''AT'', refresh_token = Some ''RT'', openid = Some ''OPENID'',
               expires_in = Some 7200, expirationTime = Some 8140000, key = Some ''OPENID'',
               o_createDate = Some 1000000, o_modifyDate = Some 1000000 \<rparr>,
         initial_state
           \<lparr>calls := [CodeExchangeCall ''CODE''],
            st_oauth := [''OPENID'' \<mapsto>
              \<lparr> access_token = Some ''AT'', refresh_token = Some ''RT'', openid = Some ''OPENID'',
                expires_in = Some 7200, expirationTime = Some 8140000, key = Some ''OPENID'',
                o_createDate = Some 1000000, o_modifyDate = Some 1000000 \<rparr>]\<rparr>)"
    by (simp add: setAccessTokenExpirationTime_def empty_oauth_def or_else_def property_key_def
        initial_state_def)
  from getAccessToken_paths
         [where code = None and w = offline and k = "Some ''nobody''" and s = initial_state] h4 t
  have b: "getAccessToken offline None (Some ''nobody'') initial_state
      = (Inl (Error ''please get new code!''), initial_state)"
    by blast
  from getAccessToken_paths
         [where code = None and w = "online\<lparr>now := 6000\<rparr>" and k = "Some ''OPENID''" and s = ?s
            and tokenInfo = example_token] h2 h5 t
  have c: "getAccessToken (online\<lparr>now := 6000\<rparr>) None (Some ''OPENID'') ?s
      = refreshAccessToken (online\<lparr>now := 6000\<rparr>) (Some ''OPENID'') example_token ?s"
    by blast
  from getAccessToken_paths
         [where code = None and w = "online\<lparr>now := 1000\<rparr>" and k = "Some ''OPENID''" and s = ?s
            and tokenInfo = example_token] h2 h3 t
  have d: "getAccessToken (online\<lparr>now := 1000\<rparr>) None (Some ''OPENID'') ?s
      = (Inr example_token, ?s)"
    by blast
  have h6: "codeReply offline ''CODE'' = Inl (Error ''offline'')"
    by (simp add: offline_def)
  let ?r = "empty_oauth\<lparr>access_token := Some ''AT'', refresh_token := Some ''RT'',
                         openid := Some ''OPENID''\<rparr>"
  have h7: "codeReply online_without_expiry ''CODE'' = Inr ?r"
    by (simp add: online_without_expiry_def)
  have h8: "expires_in ?r = None" "expirationTime ?r = None"
    by (simp_all add: empty_oauth_def)
  from getAccessToken_paths
         [where code = "Some ''CODE''" and c = "''CODE''" and w = offline
            and reason = "Error ''offline''" and k = None and s = ?s] h6
  have e: "getAccessToken offline (Some ''CODE'') None ?s
      = (Inl (Error ''offline''), ?s\<lparr>calls := calls ?s @ [CodeExchangeCall ''CODE'']\<rparr>)"
    by simp
  from getAccessToken_paths
         [where reply = ?r and code = "Some ''CODE''" and c = "''CODE''"
            and w = online_without_expiry] h7 h8
  have f: "expirationTime (setAccessTokenExpirationTime (now online_without_expiry) ?r) = None"
    by simp
  from h1 h2 h3 h4 h5 h6 h7 h8 t a b c d e f show ?thesis by blast
qed

end
